theory Spec2Isabelle
  imports Complex_Main "HOL-Library.Word"
begin

section \<open>Aptos adapter: address canonicalisation (aptos.adapter.ts)\<close>

text \<open>
  A JavaScript string is a sequence of UTF-16 code units: a list of 16-bit words.
  \<open>utf16\<close> gives the code units of an ASCII literal of the source.
\<close>

type_synonym js_string = "16 word list"

definition utf16 :: "string \<Rightarrow> js_string" where
  "utf16 s = map (\<lambda>c. of_nat (of_char c)) s"

text \<open>
  \<open>String.prototype.toLowerCase\<close> is a built-in of the language (the default case
  conversion of the Unicode standard, which is not a per-character map: the capital
  sigma is converted according to its context, and some characters become two). It is
  the parameter \<open>toLowerCase\<close> of \<open>formatAddress\<close>. What is known of it is stated by
  \<open>is_toLowerCase\<close>:
  \<^item> on a string of ASCII characters it converts \<open>A\<close>..\<open>Z\<close> to \<open>a\<close>..\<open>z\<close> and leaves every
    other character as it is;
  \<^item> it is idempotent: a converted string holds no character that a conversion changes;
  \<^item> whether a string is left unchanged does not depend on a prefix of ASCII
    characters other than \<open>A\<close>..\<open>Z\<close>: such a prefix is itself unchanged, it cannot
    join a surrogate pair, and a string that is left unchanged holds no capital sigma,
    the one character whose conversion looks at what stands before it.
\<close>

definition is_ascii :: "16 word \<Rightarrow> bool" where
  "is_ascii c = (unat c < 128)"

definition is_ascii_not_upper :: "16 word \<Rightarrow> bool" where
  "is_ascii_not_upper c = (unat c < 65 \<or> (90 < unat c \<and> unat c < 128))"

definition ascii_lower :: "16 word \<Rightarrow> 16 word" where
  "ascii_lower c = (if 65 \<le> unat c \<and> unat c \<le> 90 then of_nat (unat c + 32) else c)"

definition is_toLowerCase :: "(js_string \<Rightarrow> js_string) \<Rightarrow> bool" where
  "is_toLowerCase toLowerCase =
     ((\<forall>s. list_all is_ascii s \<longrightarrow> toLowerCase s = map ascii_lower s) \<and>
      (\<forall>s. toLowerCase (toLowerCase s) = toLowerCase s) \<and>
      (\<forall>u s. list_all is_ascii_not_upper u \<longrightarrow>
             (toLowerCase (u @ s) = u @ s) = (toLowerCase s = s)))"

text \<open>\<open>s.replace(/^0x/, '')\<close>: drop one leading \<open>0x\<close> (case sensitive), if there is one.\<close>

definition strip_0x :: "js_string \<Rightarrow> js_string" where
  "strip_0x s = (if take 2 s = utf16 ''0x'' then drop 2 s else s)"

text \<open>\<open>s.padStart(n, c)\<close> with a one-character filler; the length counts code units.\<close>

definition padStart :: "nat \<Rightarrow> 16 word \<Rightarrow> js_string \<Rightarrow> js_string" where
  "padStart n c s = replicate (n - length s) c @ s"

text \<open>The character class \<open>[a-fA-F0-9]\<close>.\<close>

definition is_hex_char :: "16 word \<Rightarrow> bool" where
  "is_hex_char c =
     ((97 \<le> unat c \<and> unat c \<le> 102) \<or>
      (65 \<le> unat c \<and> unat c \<le> 70) \<or>
      (48 \<le> unat c \<and> unat c \<le> 57))"

text \<open>The character class \<open>[a-f0-9]\<close>: a lower-case hexadecimal digit.\<close>

definition is_lower_hex_char :: "16 word \<Rightarrow> bool" where
  "is_lower_hex_char c =
     ((97 \<le> unat c \<and> unat c \<le> 102) \<or>
      (48 \<le> unat c \<and> unat c \<le> 57))"

text \<open>
  \<open>formatAddress\<close>: lower-case, remove the \<open>0x\<close> prefix, left-pad with \<open>0\<close> to 64
  code units, put \<open>0x\<close> back.
\<close>

definition formatAddress :: "(js_string \<Rightarrow> js_string) \<Rightarrow> js_string \<Rightarrow> js_string" where
  "formatAddress toLowerCase address =
     (let cleanAddress = strip_0x (toLowerCase address);
          cleanAddress = padStart 64 48 cleanAddress
      in utf16 ''0x'' @ cleanAddress)"

text \<open>
  \<open>validateAddress\<close>: remove the \<open>0x\<close> prefix, then test \<open>/^[a-fA-F0-9]{1,64}$/\<close>.
\<close>

definition validateAddress :: "js_string \<Rightarrow> bool" where
  "validateAddress address =
     (let cleanAddress = strip_0x address
      in 1 \<le> length cleanAddress \<and> length cleanAddress \<le> 64 \<and>
         list_all is_hex_char cleanAddress)"

text \<open>The conversion of ASCII strings, code unit by code unit.\<close>

definition ascii_toLowerCase :: "js_string \<Rightarrow> js_string" where
  "ascii_toLowerCase s = map ascii_lower s"

section \<open>Cricket tier selection in the adapters\<close>

text \<open>The enum \<open>RewardTier\<close> of chain-adapter.interface.ts (values 0 to 7, in this order).\<close>

datatype RewardTier =
  NIFTY_FIFTY | GAYLE_STORM | FIVE_WICKET_HAUL | HAT_TRICK
  | MAIDEN_MASTER | RUN_MACHINE | GOLDEN_ARM | ALL_ROUNDER

text \<open>
  \<open>CricketPerformanceParams\<close>. The counters are TypeScript numbers; they are counts,
  modelled as integers.
\<close>

record CricketPerformanceParams =
  cp_matchId :: string
  cp_player :: string
  cp_runs :: int
  cp_ballsFaced :: int
  cp_wickets :: int
  cp_oversBowled :: int
  cp_runsConceded :: int
  cp_maidenOvers :: int

text \<open>\<open>AptosAdapter.determineCricketTier\<close>: a chain of early returns.\<close>

definition aptos_determineCricketTier :: "CricketPerformanceParams \<Rightarrow> RewardTier" where
  "aptos_determineCricketTier params =
     (if cp_runs params \<ge> 100 then GAYLE_STORM
      else if cp_runs params \<ge> 50 then NIFTY_FIFTY
      else if cp_wickets params \<ge> 5 then FIVE_WICKET_HAUL
      else if cp_wickets params \<ge> 3 then HAT_TRICK
      else if cp_maidenOvers params \<ge> 3 then MAIDEN_MASTER
      else ALL_ROUNDER)"

text \<open>\<open>OpBNBAdapter.determineCricketTier\<close>: the same chain of early returns.\<close>

definition opbnb_determineCricketTier :: "CricketPerformanceParams \<Rightarrow> RewardTier" where
  "opbnb_determineCricketTier params =
     (if cp_runs params \<ge> 100 then GAYLE_STORM
      else if cp_runs params \<ge> 50 then NIFTY_FIFTY
      else if cp_wickets params \<ge> 5 then FIVE_WICKET_HAUL
      else if cp_wickets params \<ge> 3 then HAT_TRICK
      else if cp_maidenOvers params \<ge> 3 then MAIDEN_MASTER
      else ALL_ROUNDER)"

text \<open>
  The tier selection inside \<open>ArbitrumAdapter.recordCricketPerformance\<close>: a variable
  \<open>tier\<close> assigned by five independent \<open>if\<close> statements, in the source's order, so
  that the last condition that holds decides.
\<close>

definition arbitrum_recordCricketPerformance_tier :: "CricketPerformanceParams \<Rightarrow> RewardTier" where
  "arbitrum_recordCricketPerformance_tier params =
     (let tier = ALL_ROUNDER;
          tier = (if cp_runs params \<ge> 50 then NIFTY_FIFTY else tier);
          tier = (if cp_runs params \<ge> 100 then GAYLE_STORM else tier);
          tier = (if cp_wickets params \<ge> 3 then HAT_TRICK else tier);
          tier = (if cp_wickets params \<ge> 5 then FIVE_WICKET_HAUL else tier);
          tier = (if cp_maidenOvers params \<ge> 3 then MAIDEN_MASTER else tier)
      in tier)"

text \<open>
  The ordered rule evaluation as the specification words it, highest priority first,
  on the three counters it reads.
\<close>

definition spec_cricket_tier :: "int \<Rightarrow> int \<Rightarrow> int \<Rightarrow> RewardTier" where
  "spec_cricket_tier r w m =
     (if r \<ge> 100 then GAYLE_STORM
      else if r \<ge> 50 then NIFTY_FIFTY
      else if w \<ge> 5 then FIVE_WICKET_HAUL
      else if w \<ge> 3 then HAT_TRICK
      else if m \<ge> 3 then MAIDEN_MASTER
      else ALL_ROUNDER)"

section \<open>The Solidity burn engine (DeflatinaryBurn.sol)\<close>

text \<open>
  \<open>uint256\<close> values are natural numbers below \<open>2 ^ 256\<close>; Solidity 0.8 arithmetic is
  checked, so a product or sum that leaves the range reverts (panic 0x11). \<open>bytes32\<close>
  and \<open>address\<close> are 256-bit and 160-bit words. A revert is an error value; the state
  is then the one before the call.
\<close>

type_synonym bytes32 = "256 word"
type_synonym sol_address = "160 word"

datatype sol_error =
  InvalidTier | InvalidEffortScore | BurnAlreadyExecuted
  | Require_failed string | OwnableUnauthorizedAccount | OwnableInvalidOwner
  | Panic_overflow

definition checked_mul :: "nat \<Rightarrow> nat \<Rightarrow> sol_error + nat" where
  "checked_mul a b = (if a * b < 2 ^ 256 then Inr (a * b) else Inl Panic_overflow)"

definition checked_add :: "nat \<Rightarrow> nat \<Rightarrow> sol_error + nat" where
  "checked_add a b = (if a + b < 2 ^ 256 then Inr (a + b) else Inl Panic_overflow)"

record BurnTransaction =
  bt_matchId :: bytes32
  bt_player :: sol_address
  bt_burnAmount :: nat
  bt_rewardAmount :: nat
  bt_tier :: nat
  bt_effortScore :: nat
  bt_timestamp :: nat
  bt_executed :: bool

text \<open>
  The contract's storage. A Solidity mapping is total: a key never written reads as
  the zero value.
\<close>

record DeflatinaryBurn =
  owner :: sol_address
  tokenContract :: sol_address
  oracleContract :: sol_address
  burnMultipliers :: "nat \<Rightarrow> nat"
  baseRewards :: "nat \<Rightarrow> nat"
  totalBurnedAmount :: nat
  totalRewardsDistributed :: nat
  playerTotalRewards :: "sol_address \<Rightarrow> nat"
  playerTotalBurned :: "sol_address \<Rightarrow> nat"
  burnTransactions :: "bytes32 \<Rightarrow> BurnTransaction"

definition TIER_ALL_ROUNDER :: nat where
  "TIER_ALL_ROUNDER = 7"

definition zero_BurnTransaction :: BurnTransaction where
  "zero_BurnTransaction =
     \<lparr>bt_matchId = 0, bt_player = 0, bt_burnAmount = 0, bt_rewardAmount = 0, bt_tier = 0,
      bt_effortScore = 0, bt_timestamp = 0, bt_executed = False\<rparr>"

text \<open>The tier tables the constructor writes (multipliers times 10, rewards in wei).\<close>

definition constructor_burnMultipliers :: "nat \<Rightarrow> nat" where
  "constructor_burnMultipliers =
     (\<lambda>_. 0)(0 := 15, 1 := 30, 2 := 25, 3 := 30, 4 := 15, 5 := 40, 6 := 13, 7 := 20)"

definition constructor_baseRewards :: "nat \<Rightarrow> nat" where
  "constructor_baseRewards =
     (\<lambda>_. 0)(0 := 50 * 10 ^ 18, 1 := 150 * 10 ^ 18, 2 := 100 * 10 ^ 18, 3 := 200 * 10 ^ 18,
              4 := 30 * 10 ^ 18, 5 := 250 * 10 ^ 18, 6 := 40 * 10 ^ 18, 7 := 120 * 10 ^ 18)"

definition constructor :: "sol_address \<Rightarrow> sol_address \<Rightarrow> sol_address \<Rightarrow> sol_error + DeflatinaryBurn" where
  "constructor msg_sender token_contract oracle_contract =
     (if token_contract = 0 then Inl (Require_failed ''Invalid token contract'')
      else if oracle_contract = 0 then Inl (Require_failed ''Invalid oracle contract'')
      else Inr \<lparr>owner = msg_sender, tokenContract = token_contract,
                oracleContract = oracle_contract,
                burnMultipliers = constructor_burnMultipliers,
                baseRewards = constructor_baseRewards,
                totalBurnedAmount = 0, totalRewardsDistributed = 0,
                playerTotalRewards = (\<lambda>_. 0), playerTotalBurned = (\<lambda>_. 0),
                burnTransactions = (\<lambda>_. zero_BurnTransaction)\<rparr>)"

definition calculateReward :: "DeflatinaryBurn \<Rightarrow> nat \<Rightarrow> nat \<Rightarrow> sol_error + nat" where
  "calculateReward s tier effortScore =
     (if tier > TIER_ALL_ROUNDER then Inl InvalidTier
      else if effortScore > 100 then Inl InvalidEffortScore
      else
        let baseReward = baseRewards s tier;
            burnMultiplier = burnMultipliers s tier
        in case checked_mul baseReward effortScore of
             Inl e \<Rightarrow> Inl e
           | Inr p \<Rightarrow>
               let effortAdjusted = p div 100
               in (case checked_mul effortAdjusted burnMultiplier of
                     Inl e \<Rightarrow> Inl e
                   | Inr q \<Rightarrow> Inr (q div 10)))"

text \<open>
  \<open>_computeTxId\<close> is \<open>keccak256(abi.encodePacked(matchId, player))\<close>. The hash is a
  built-in of the platform; it is the parameter \<open>keccak\<close>, a function of the two packed
  arguments.
\<close>

definition computeTxId :: "(bytes32 \<Rightarrow> sol_address \<Rightarrow> bytes32) \<Rightarrow> bytes32 \<Rightarrow> sol_address \<Rightarrow> bytes32" where
  "computeTxId keccak matchId player = keccak matchId player"

text \<open>
  \<open>burnForPerformance\<close>, with the modifier \<open>onlyOracle\<close> first. \<open>msg_sender\<close> and
  \<open>block_timestamp\<close> are the transaction context. The result is the returned pair
  \<open>(burnAmount, rewardAmount)\<close> and the new storage. The two events are not modelled.
\<close>

definition burnForPerformance ::
  "(bytes32 \<Rightarrow> sol_address \<Rightarrow> bytes32) \<Rightarrow> sol_address \<Rightarrow> nat \<Rightarrow> bytes32 \<Rightarrow> sol_address \<Rightarrow> nat \<Rightarrow> nat
     \<Rightarrow> DeflatinaryBurn \<Rightarrow> sol_error + ((nat \<times> nat) \<times> DeflatinaryBurn)" where
  "burnForPerformance keccak msg_sender block_timestamp matchId player tier effortScore s =
     (if msg_sender = oracleContract s \<or> msg_sender = owner s then
        let txId = computeTxId keccak matchId player
        in if bt_executed (burnTransactions s txId) then Inl BurnAlreadyExecuted
           else
             (case calculateReward s tier effortScore of
                Inl e \<Rightarrow> Inl e
              | Inr rewardAmount \<Rightarrow>
                  let burnAmount = rewardAmount div 10;
                      tx = \<lparr>bt_matchId = matchId, bt_player = player,
                            bt_burnAmount = burnAmount, bt_rewardAmount = rewardAmount,
                            bt_tier = tier, bt_effortScore = effortScore,
                            bt_timestamp = block_timestamp, bt_executed = True\<rparr>
                  in (case checked_add (totalBurnedAmount s) burnAmount of
                        Inl e \<Rightarrow> Inl e
                      | Inr tb \<Rightarrow>
                     (case checked_add (totalRewardsDistributed s) rewardAmount of
                        Inl e \<Rightarrow> Inl e
                      | Inr tr \<Rightarrow>
                     (case checked_add (playerTotalRewards s player) rewardAmount of
                        Inl e \<Rightarrow> Inl e
                      | Inr pr \<Rightarrow>
                     (case checked_add (playerTotalBurned s player) burnAmount of
                        Inl e \<Rightarrow> Inl e
                      | Inr pb \<Rightarrow>
                          Inr ((burnAmount, rewardAmount),
                               s\<lparr>burnTransactions := (burnTransactions s)(txId := tx),
                                 totalBurnedAmount := tb,
                                 totalRewardsDistributed := tr,
                                 playerTotalRewards := (playerTotalRewards s)(player := pr),
                                 playerTotalBurned := (playerTotalBurned s)(player := pb)\<rparr>))))))
      else Inl (Require_failed ''Not authorized''))"

definition updateTier :: "sol_address \<Rightarrow> nat \<Rightarrow> nat \<Rightarrow> nat \<Rightarrow> DeflatinaryBurn \<Rightarrow> sol_error + DeflatinaryBurn" where
  "updateTier msg_sender tier multiplier baseReward s =
     (if msg_sender = owner s then
        if tier > TIER_ALL_ROUNDER then Inl InvalidTier
        else Inr (s\<lparr>burnMultipliers := (burnMultipliers s)(tier := multiplier),
                    baseRewards := (baseRewards s)(tier := baseReward)\<rparr>)
      else Inl OwnableUnauthorizedAccount)"

definition setOracleContract :: "sol_address \<Rightarrow> sol_address \<Rightarrow> DeflatinaryBurn \<Rightarrow> sol_error + DeflatinaryBurn" where
  "setOracleContract msg_sender new_oracle s =
     (if msg_sender = owner s then
        if new_oracle = 0 then Inl (Require_failed ''Invalid oracle address'')
        else Inr (s\<lparr>oracleContract := new_oracle\<rparr>)
      else Inl OwnableUnauthorizedAccount)"

text \<open>The two state-changing functions inherited from OpenZeppelin's \<open>Ownable\<close>.\<close>

definition transferOwnership :: "sol_address \<Rightarrow> sol_address \<Rightarrow> DeflatinaryBurn \<Rightarrow> sol_error + DeflatinaryBurn" where
  "transferOwnership msg_sender newOwner s =
     (if msg_sender = owner s then
        if newOwner = 0 then Inl OwnableInvalidOwner
        else Inr (s\<lparr>owner := newOwner\<rparr>)
      else Inl OwnableUnauthorizedAccount)"

definition renounceOwnership :: "sol_address \<Rightarrow> DeflatinaryBurn \<Rightarrow> sol_error + DeflatinaryBurn" where
  "renounceOwnership msg_sender s =
     (if msg_sender = owner s then Inr (s\<lparr>owner := 0\<rparr>)
      else Inl OwnableUnauthorizedAccount)"

text \<open>
  A transaction sent to the contract: any of its state-changing external functions,
  with the sender (and for a burn the block timestamp). \<open>sol_exec\<close> is the effect on
  storage: a reverted transaction leaves the storage as it was.
\<close>

datatype sol_call =
  BurnForPerformance sol_address nat bytes32 sol_address nat nat
  | UpdateTier sol_address nat nat nat
  | SetOracleContract sol_address sol_address
  | TransferOwnership sol_address sol_address
  | RenounceOwnership sol_address

fun sol_apply :: "(bytes32 \<Rightarrow> sol_address \<Rightarrow> bytes32) \<Rightarrow> sol_call \<Rightarrow> DeflatinaryBurn \<Rightarrow> sol_error + DeflatinaryBurn" where
  "sol_apply keccak (BurnForPerformance sender ts matchId player tier effortScore) s =
     (case burnForPerformance keccak sender ts matchId player tier effortScore s of
        Inl e \<Rightarrow> Inl e | Inr (r, s') \<Rightarrow> Inr s')"
| "sol_apply keccak (UpdateTier sender tier multiplier baseReward) s =
     updateTier sender tier multiplier baseReward s"
| "sol_apply keccak (SetOracleContract sender new_oracle) s = setOracleContract sender new_oracle s"
| "sol_apply keccak (TransferOwnership sender newOwner) s = transferOwnership sender newOwner s"
| "sol_apply keccak (RenounceOwnership sender) s = renounceOwnership sender s"

definition sol_exec :: "(bytes32 \<Rightarrow> sol_address \<Rightarrow> bytes32) \<Rightarrow> DeflatinaryBurn \<Rightarrow> sol_call \<Rightarrow> DeflatinaryBurn" where
  "sol_exec keccak s c = (case sol_apply keccak c s of Inl e \<Rightarrow> s | Inr s' \<Rightarrow> s')"

definition sol_run :: "(bytes32 \<Rightarrow> sol_address \<Rightarrow> bytes32) \<Rightarrow> DeflatinaryBurn \<Rightarrow> sol_call list \<Rightarrow> DeflatinaryBurn" where
  "sol_run keccak s cs = foldl (sol_exec keccak) s cs"


section \<open>The Move modules (contracts/aptos/sources)\<close>

text \<open>
  \<open>u64\<close> and \<open>u8\<close> values are natural numbers; Move arithmetic aborts when a result
  leaves the range of \<open>u64\<close>. \<open>vector<u8>\<close> is a list of bytes, \<open>address\<close> a 256-bit
  word. An abort is an error value; the transaction then has no effect on the store.

  The named address \<open>@spp_protocol\<close> is fixed by the package manifest; it is the
  parameter \<open>spp\<close> of every function that reads it.
\<close>

type_synonym move_address = "256 word"
type_synonym bytes = "8 word list"

datatype move_error =
  Abort nat
  | ARITHMETIC_ERROR
  | MISSING_DATA
  | RESOURCE_ALREADY_EXISTS
  | EINSUFFICIENT_BALANCE

definition u64_add :: "nat \<Rightarrow> nat \<Rightarrow> move_error + nat" where
  "u64_add a b = (if a + b < 2 ^ 64 then Inr (a + b) else Inl ARITHMETIC_ERROR)"

definition u64_sub :: "nat \<Rightarrow> nat \<Rightarrow> move_error + nat" where
  "u64_sub a b = (if b \<le> a then Inr (a - b) else Inl ARITHMETIC_ERROR)"

definition u64_mul :: "nat \<Rightarrow> nat \<Rightarrow> move_error + nat" where
  "u64_mul a b = (if a * b < 2 ^ 64 then Inr (a * b) else Inl ARITHMETIC_ERROR)"

text \<open>\<open>bcs::to_bytes\<close> of an address: its 32 bytes, most significant first.\<close>

definition bcs_to_bytes :: "move_address \<Rightarrow> bytes" where
  "bcs_to_bytes a = map (\<lambda>i. ucast (drop_bit (8 * (31 - i)) a)) [0..<32]"

subsection \<open>reward\_tiers.move\<close>

record TierConfig =
  tc_tier :: nat
  tc_multiplier :: nat
  tc_base_reward :: nat
  tc_min_score :: nat

record TiersState =
  ts_admin :: move_address
  tier_0 :: TierConfig
  tier_1 :: TierConfig
  tier_2 :: TierConfig
  tier_3 :: TierConfig
  tier_4 :: TierConfig
  tier_5 :: TierConfig
  tier_6 :: TierConfig
  tier_7 :: TierConfig

subsection \<open>spp\_token.move\<close>

record TokenStats =
  tk_total_burned :: nat
  tk_circulating_supply :: nat
  tk_paused :: bool

subsection \<open>deflatinary\_burn.move\<close>

record BurnRecord =
  br_match_id :: bytes
  br_player :: move_address
  br_burn_amount :: nat
  br_reward_amount :: nat
  br_tier :: nat
  br_effort_score :: nat
  br_timestamp :: nat

record BurnEngineState =
  be_admin :: move_address
  burn_records :: "bytes \<rightharpoonup> BurnRecord"
  total_burned :: nat
  total_rewards :: nat
  player_rewards :: "move_address \<rightharpoonup> nat"
  player_burned :: "move_address \<rightharpoonup> nat"

subsection \<open>performance\_oracle.move\<close>

record Match =
  mt_match_id :: bytes
  mt_sport :: nat
  mt_status :: nat
  mt_winner :: nat
  mt_data_hash :: bytes
  mt_player_count :: nat
  mt_registered_at :: nat
  mt_finalized_at :: nat

record Performance =
  pf_match_id :: bytes
  pf_player :: move_address
  pf_performance_score :: nat
  pf_effort_score :: nat
  pf_reward_tier :: nat
  pf_timestamp :: nat
  pf_verified :: bool

record CricketPerformance =
  cr_match_id :: bytes
  cr_player :: move_address
  cr_runs :: nat
  cr_balls_faced :: nat
  cr_wickets :: nat
  cr_overs_bowled :: nat
  cr_runs_conceded :: nat
  cr_maiden_overs :: nat
  cr_timestamp :: nat

record OracleState =
  or_admin :: move_address
  oracle_addresses :: "move_address list"
  match_store :: "bytes \<rightharpoonup> Match"
  performance_store :: "bytes \<rightharpoonup> Performance"
  cricket_performance_store :: "bytes \<rightharpoonup> CricketPerformance"

subsection \<open>The global store\<close>

text \<open>
  Global storage: for each resource type, the resource published under an address, if
  any. \<open>token_stats\<close> stands for the pair \<open>TokenRefs\<close>, \<open>TokenStats\<close>, which
  \<open>spp_token::initialize\<close> publishes together. The Aptos framework is outside the
  repository; of its fungible-asset store the model keeps the balance of each account
  in the SPP token: burning needs a sufficient balance and takes from it, depositing
  adds to it. Events are not modelled.
\<close>

record move_world =
  tiers_state :: "move_address \<rightharpoonup> TiersState"
  token_stats :: "move_address \<rightharpoonup> TokenStats"
  token_balance :: "move_address \<Rightarrow> nat"
  burn_engine_state :: "move_address \<rightharpoonup> BurnEngineState"
  oracle_state :: "move_address \<rightharpoonup> OracleState"

definition empty_world :: move_world where
  "empty_world =
     \<lparr>tiers_state = Map.empty, token_stats = Map.empty, token_balance = (\<lambda>_. 0),
      burn_engine_state = Map.empty, oracle_state = Map.empty\<rparr>"

subsection \<open>reward\_tiers: functions\<close>

definition reward_tiers_E_NOT_AUTHORIZED :: nat where
  "reward_tiers_E_NOT_AUTHORIZED = 1"

definition reward_tiers_E_INVALID_TIER :: nat where
  "reward_tiers_E_INVALID_TIER = 2"

definition reward_tiers_initialize :: "move_address \<Rightarrow> move_world \<Rightarrow> move_error + move_world" where
  "reward_tiers_initialize admin_addr w =
     (case tiers_state w admin_addr of
        Some _ \<Rightarrow> Inl RESOURCE_ALREADY_EXISTS
      | None \<Rightarrow>
          Inr (w\<lparr>tiers_state := (tiers_state w)(admin_addr \<mapsto>
            \<lparr>ts_admin = admin_addr,
             tier_0 = \<lparr>tc_tier = 0, tc_multiplier = 150, tc_base_reward = 5000000000, tc_min_score = 50\<rparr>,
             tier_1 = \<lparr>tc_tier = 1, tc_multiplier = 300, tc_base_reward = 15000000000, tc_min_score = 70\<rparr>,
             tier_2 = \<lparr>tc_tier = 2, tc_multiplier = 250, tc_base_reward = 10000000000, tc_min_score = 60\<rparr>,
             tier_3 = \<lparr>tc_tier = 3, tc_multiplier = 300, tc_base_reward = 20000000000, tc_min_score = 80\<rparr>,
             tier_4 = \<lparr>tc_tier = 4, tc_multiplier = 150, tc_base_reward = 3000000000, tc_min_score = 40\<rparr>,
             tier_5 = \<lparr>tc_tier = 5, tc_multiplier = 400, tc_base_reward = 25000000000, tc_min_score = 90\<rparr>,
             tier_6 = \<lparr>tc_tier = 6, tc_multiplier = 130, tc_base_reward = 4000000000, tc_min_score = 45\<rparr>,
             tier_7 = \<lparr>tc_tier = 7, tc_multiplier = 200, tc_base_reward = 12000000000, tc_min_score = 65\<rparr>\<rparr>)\<rparr>))"

definition update_tier ::
  "move_address \<Rightarrow> move_address \<Rightarrow> nat \<Rightarrow> nat \<Rightarrow> nat \<Rightarrow> nat \<Rightarrow> move_world \<Rightarrow> move_error + move_world" where
  "update_tier spp admin_addr tier multiplier base_reward min_score w =
     (case tiers_state w spp of
        None \<Rightarrow> Inl MISSING_DATA
      | Some state \<Rightarrow>
          if admin_addr = ts_admin state then
            if tier \<le> 7 then
              let new_config = \<lparr>tc_tier = tier, tc_multiplier = multiplier,
                                tc_base_reward = base_reward, tc_min_score = min_score\<rparr>;
                  state' =
                    (if tier = 0 then state\<lparr>tier_0 := new_config\<rparr>
                     else if tier = 1 then state\<lparr>tier_1 := new_config\<rparr>
                     else if tier = 2 then state\<lparr>tier_2 := new_config\<rparr>
                     else if tier = 3 then state\<lparr>tier_3 := new_config\<rparr>
                     else if tier = 4 then state\<lparr>tier_4 := new_config\<rparr>
                     else if tier = 5 then state\<lparr>tier_5 := new_config\<rparr>
                     else if tier = 6 then state\<lparr>tier_6 := new_config\<rparr>
                     else if tier = 7 then state\<lparr>tier_7 := new_config\<rparr>
                     else state)
              in Inr (w\<lparr>tiers_state := (tiers_state w)(spp \<mapsto> state')\<rparr>)
            else Inl (Abort reward_tiers_E_INVALID_TIER)
          else Inl (Abort reward_tiers_E_NOT_AUTHORIZED))"

text \<open>\<open>get_tier_config\<close> returns the pair \<open>(multiplier, base_reward)\<close>.\<close>

definition get_tier_config :: "move_address \<Rightarrow> move_world \<Rightarrow> nat \<Rightarrow> move_error + (nat \<times> nat)" where
  "get_tier_config spp w tier =
     (case tiers_state w spp of
        None \<Rightarrow> Inl MISSING_DATA
      | Some state \<Rightarrow>
          if tier \<le> 7 then
            let config =
                  (if tier = 0 then tier_0 state
                   else if tier = 1 then tier_1 state
                   else if tier = 2 then tier_2 state
                   else if tier = 3 then tier_3 state
                   else if tier = 4 then tier_4 state
                   else if tier = 5 then tier_5 state
                   else if tier = 6 then tier_6 state
                   else tier_7 state)
            in Inr (tc_multiplier config, tc_base_reward config)
          else Inl (Abort reward_tiers_E_INVALID_TIER))"

subsection \<open>spp\_token: functions\<close>

definition spp_token_E_NOT_OWNER :: nat where
  "spp_token_E_NOT_OWNER = 1"

definition INITIAL_SUPPLY :: nat where
  "INITIAL_SUPPLY = 100000000000000000"

definition spp_token_initialize :: "move_address \<Rightarrow> move_world \<Rightarrow> move_error + move_world" where
  "spp_token_initialize admin_addr w =
     (case token_stats w admin_addr of
        Some _ \<Rightarrow> Inl RESOURCE_ALREADY_EXISTS
      | None \<Rightarrow>
          (case u64_add (token_balance w admin_addr) INITIAL_SUPPLY of
             Inl e \<Rightarrow> Inl e
           | Inr b \<Rightarrow>
               Inr (w\<lparr>token_stats := (token_stats w)(admin_addr \<mapsto>
                        \<lparr>tk_total_burned = 0, tk_circulating_supply = INITIAL_SUPPLY,
                         tk_paused = False\<rparr>),
                      token_balance := (token_balance w)(admin_addr := b)\<rparr>)))"

definition spp_token_burn :: "move_address \<Rightarrow> move_address \<Rightarrow> nat \<Rightarrow> move_world \<Rightarrow> move_error + move_world" where
  "spp_token_burn spp account_addr amount w =
     (case token_stats w spp of
        None \<Rightarrow> Inl MISSING_DATA
      | Some stats \<Rightarrow>
          if amount \<le> token_balance w account_addr then
            (case u64_add (tk_total_burned stats) amount of
               Inl e \<Rightarrow> Inl e
             | Inr tb \<Rightarrow>
            (case u64_sub (tk_circulating_supply stats) amount of
               Inl e \<Rightarrow> Inl e
             | Inr cs \<Rightarrow>
                 Inr (w\<lparr>token_balance := (token_balance w)(account_addr := token_balance w account_addr - amount),
                        token_stats := (token_stats w)(spp \<mapsto>
                          stats\<lparr>tk_total_burned := tb, tk_circulating_supply := cs\<rparr>)\<rparr>)))
          else Inl EINSUFFICIENT_BALANCE)"

definition spp_token_mint :: "move_address \<Rightarrow> move_address \<Rightarrow> move_address \<Rightarrow> nat \<Rightarrow> move_world \<Rightarrow> move_error + move_world" where
  "spp_token_mint spp admin_addr to amount w =
     (if admin_addr = spp then
        (case token_stats w spp of
           None \<Rightarrow> Inl MISSING_DATA
         | Some stats \<Rightarrow>
             (case u64_add (token_balance w to) amount of
                Inl e \<Rightarrow> Inl e
              | Inr b \<Rightarrow>
             (case u64_add (tk_circulating_supply stats) amount of
                Inl e \<Rightarrow> Inl e
              | Inr cs \<Rightarrow>
                  Inr (w\<lparr>token_balance := (token_balance w)(to := b),
                         token_stats := (token_stats w)(spp \<mapsto>
                           stats\<lparr>tk_circulating_supply := cs\<rparr>)\<rparr>))))
      else Inl (Abort spp_token_E_NOT_OWNER))"

definition set_paused :: "move_address \<Rightarrow> move_address \<Rightarrow> bool \<Rightarrow> move_world \<Rightarrow> move_error + move_world" where
  "set_paused spp admin_addr paused w =
     (if admin_addr = spp then
        (case token_stats w spp of
           None \<Rightarrow> Inl MISSING_DATA
         | Some stats \<Rightarrow> Inr (w\<lparr>token_stats := (token_stats w)(spp \<mapsto> stats\<lparr>tk_paused := paused\<rparr>)\<rparr>))
      else Inl (Abort spp_token_E_NOT_OWNER))"


subsection \<open>deflatinary\_burn: functions\<close>

definition E_ALREADY_BURNED :: nat where
  "E_ALREADY_BURNED = 3"

definition E_INVALID_TIER :: nat where
  "E_INVALID_TIER = 5"

definition deflatinary_burn_initialize :: "move_address \<Rightarrow> move_world \<Rightarrow> move_error + move_world" where
  "deflatinary_burn_initialize admin_addr w =
     (case burn_engine_state w admin_addr of
        Some _ \<Rightarrow> Inl RESOURCE_ALREADY_EXISTS
      | None \<Rightarrow>
          Inr (w\<lparr>burn_engine_state := (burn_engine_state w)(admin_addr \<mapsto>
                 \<lparr>be_admin = admin_addr, burn_records = Map.empty, total_burned = 0,
                  total_rewards = 0, player_rewards = Map.empty,
                  player_burned = Map.empty\<rparr>)\<rparr>))"

definition calculate_reward :: "move_address \<Rightarrow> move_world \<Rightarrow> nat \<Rightarrow> nat \<Rightarrow> move_error + nat" where
  "calculate_reward spp w tier effort_score =
     (case get_tier_config spp w tier of
        Inl e \<Rightarrow> Inl e
      | Inr (multiplier, base_reward) \<Rightarrow>
          let effort_multiplier = effort_score
          in (case u64_mul base_reward multiplier of
                Inl e \<Rightarrow> Inl e
              | Inr p \<Rightarrow>
                  (case u64_mul p effort_multiplier of
                     Inl e \<Rightarrow> Inl e
                   | Inr q \<Rightarrow> Inr (q div 10000))))"

text \<open>
  The update of a per-player tally: add to the entry if the table has one, else insert.
\<close>

definition table_add_u64 :: "(move_address \<rightharpoonup> nat) \<Rightarrow> move_address \<Rightarrow> nat \<Rightarrow> move_error + (move_address \<rightharpoonup> nat)" where
  "table_add_u64 t k amount =
     (case t k of
        Some current \<Rightarrow>
          (case u64_add current amount of
             Inl e \<Rightarrow> Inl e
           | Inr v \<Rightarrow> Inr (t(k \<mapsto> v)))
      | None \<Rightarrow> Inr (t(k \<mapsto> amount)))"

text \<open>
  \<open>burn_for_performance\<close>. \<open>player_addr\<close> is the address of the signer, \<open>now\<close> the
  value of \<open>timestamp::now_seconds()\<close>. The source passes \<open>&state.admin\<close> to
  \<open>spp_token::mint\<close>, so the admin address stored in the engine is the one
  \<open>mint\<close> compares with \<open>@spp_protocol\<close>.
\<close>

definition burn_for_performance ::
  "move_address \<Rightarrow> move_address \<Rightarrow> nat \<Rightarrow> bytes \<Rightarrow> nat \<Rightarrow> nat \<Rightarrow> nat \<Rightarrow> move_world
     \<Rightarrow> move_error + move_world" where
  "burn_for_performance spp player_addr now match_id tier performance_score effort_score w =
     (case burn_engine_state w spp of
        None \<Rightarrow> Inl MISSING_DATA
      | Some state \<Rightarrow>
          if tier \<le> 7 then
            let burn_key = match_id @ bcs_to_bytes player_addr
            in (case burn_records state burn_key of
                  Some _ \<Rightarrow> Inl (Abort E_ALREADY_BURNED)
                | None \<Rightarrow>
                (case calculate_reward spp w tier effort_score of
                   Inl e \<Rightarrow> Inl e
                 | Inr reward_amount \<Rightarrow>
                     let burn_amount = reward_amount div 10
                     in (case spp_token_burn spp player_addr burn_amount w of
                           Inl e \<Rightarrow> Inl e
                         | Inr w1 \<Rightarrow>
                             let record = \<lparr>br_match_id = match_id, br_player = player_addr,
                                            br_burn_amount = burn_amount,
                                            br_reward_amount = reward_amount,
                                            br_tier = tier, br_effort_score = effort_score,
                                            br_timestamp = now\<rparr>
                             in (case u64_add (total_burned state) burn_amount of
                                   Inl e \<Rightarrow> Inl e
                                 | Inr tb \<Rightarrow>
                                (case u64_add (total_rewards state) reward_amount of
                                   Inl e \<Rightarrow> Inl e
                                 | Inr tr \<Rightarrow>
                                (case table_add_u64 (player_burned state) player_addr burn_amount of
                                   Inl e \<Rightarrow> Inl e
                                 | Inr pb \<Rightarrow>
                                (case table_add_u64 (player_rewards state) player_addr reward_amount of
                                   Inl e \<Rightarrow> Inl e
                                 | Inr pr \<Rightarrow>
                                (case spp_token_mint spp (be_admin state) player_addr reward_amount w1 of
                                   Inl e \<Rightarrow> Inl e
                                 | Inr w2 \<Rightarrow>
                                     Inr (w2\<lparr>burn_engine_state := (burn_engine_state w2)(spp \<mapsto>
                                            state\<lparr>burn_records := (burn_records state)(burn_key \<mapsto> record),
                                                  total_burned := tb,
                                                  total_rewards := tr,
                                                  player_burned := pb,
                                                  player_rewards := pr\<rparr>)\<rparr>)))))))))
          else Inl (Abort E_INVALID_TIER))"

subsection \<open>performance\_oracle: functions\<close>

definition E_NOT_AUTHORIZED :: nat where
  "E_NOT_AUTHORIZED = 1"

definition E_MATCH_NOT_FOUND :: nat where
  "E_MATCH_NOT_FOUND = 2"

definition E_MATCH_ALREADY_EXISTS :: nat where
  "E_MATCH_ALREADY_EXISTS = 3"

definition E_MATCH_ALREADY_FINALIZED :: nat where
  "E_MATCH_ALREADY_FINALIZED = 4"

definition STATUS_REGISTERED :: nat where
  "STATUS_REGISTERED = 0"

definition STATUS_FINALIZED :: nat where
  "STATUS_FINALIZED = 2"

definition performance_oracle_initialize :: "move_address \<Rightarrow> move_world \<Rightarrow> move_error + move_world" where
  "performance_oracle_initialize admin_addr w =
     (case oracle_state w admin_addr of
        Some _ \<Rightarrow> Inl RESOURCE_ALREADY_EXISTS
      | None \<Rightarrow>
          Inr (w\<lparr>oracle_state := (oracle_state w)(admin_addr \<mapsto>
                 \<lparr>or_admin = admin_addr, oracle_addresses = [], match_store = Map.empty,
                  performance_store = Map.empty,
                  cricket_performance_store = Map.empty\<rparr>)\<rparr>))"

definition add_oracle :: "move_address \<Rightarrow> move_address \<Rightarrow> move_address \<Rightarrow> move_world \<Rightarrow> move_error + move_world" where
  "add_oracle spp admin_addr oracle_addr w =
     (case oracle_state w spp of
        None \<Rightarrow> Inl MISSING_DATA
      | Some state \<Rightarrow>
          if admin_addr = or_admin state then
            Inr (w\<lparr>oracle_state := (oracle_state w)(spp \<mapsto>
                   state\<lparr>oracle_addresses := oracle_addresses state @ [oracle_addr]\<rparr>)\<rparr>)
          else Inl (Abort E_NOT_AUTHORIZED))"

definition register_match :: "move_address \<Rightarrow> move_address \<Rightarrow> nat \<Rightarrow> bytes \<Rightarrow> nat \<Rightarrow> move_world \<Rightarrow> move_error + move_world" where
  "register_match spp oracle_addr now match_id sport w =
     (case oracle_state w spp of
        None \<Rightarrow> Inl MISSING_DATA
      | Some state \<Rightarrow>
          if oracle_addr = or_admin state \<or> oracle_addr \<in> set (oracle_addresses state) then
            (case match_store state match_id of
               Some _ \<Rightarrow> Inl (Abort E_MATCH_ALREADY_EXISTS)
             | None \<Rightarrow>
                 let match_data = \<lparr>mt_match_id = match_id, mt_sport = sport,
                                   mt_status = STATUS_REGISTERED, mt_winner = 0,
                                   mt_data_hash = [], mt_player_count = 0,
                                   mt_registered_at = now, mt_finalized_at = 0\<rparr>
                 in Inr (w\<lparr>oracle_state := (oracle_state w)(spp \<mapsto>
                          state\<lparr>match_store := (match_store state)(match_id \<mapsto> match_data)\<rparr>)\<rparr>))
          else Inl (Abort E_NOT_AUTHORIZED))"

definition finalize_match ::
  "move_address \<Rightarrow> move_address \<Rightarrow> nat \<Rightarrow> bytes \<Rightarrow> nat \<Rightarrow> bytes \<Rightarrow> move_world \<Rightarrow> move_error + move_world" where
  "finalize_match spp oracle_addr now match_id winner data_hash w =
     (case oracle_state w spp of
        None \<Rightarrow> Inl MISSING_DATA
      | Some state \<Rightarrow>
          if oracle_addr = or_admin state \<or> oracle_addr \<in> set (oracle_addresses state) then
            (case match_store state match_id of
               None \<Rightarrow> Inl (Abort E_MATCH_NOT_FOUND)
             | Some match_data \<Rightarrow>
                 if mt_status match_data = STATUS_FINALIZED
                 then Inl (Abort E_MATCH_ALREADY_FINALIZED)
                 else
                   let match_data' = match_data\<lparr>mt_status := STATUS_FINALIZED,
                                                 mt_winner := winner,
                                                 mt_data_hash := data_hash,
                                                 mt_finalized_at := now\<rparr>
                   in Inr (w\<lparr>oracle_state := (oracle_state w)(spp \<mapsto>
                            state\<lparr>match_store := (match_store state)(match_id \<mapsto> match_data')\<rparr>)\<rparr>))
          else Inl (Abort E_NOT_AUTHORIZED))"

text \<open>
  \<open>record_performance\<close>: authorisation, existence of the match, then the record is
  stored or overwritten under the key \<open>match_id @ bcs(player)\<close>. The source reads no
  field of the match.
\<close>

definition record_performance ::
  "move_address \<Rightarrow> move_address \<Rightarrow> nat \<Rightarrow> bytes \<Rightarrow> move_address \<Rightarrow> nat \<Rightarrow> nat \<Rightarrow> nat \<Rightarrow> move_world
     \<Rightarrow> move_error + move_world" where
  "record_performance spp oracle_addr now match_id player performance_score effort_score reward_tier w =
     (case oracle_state w spp of
        None \<Rightarrow> Inl MISSING_DATA
      | Some state \<Rightarrow>
          if oracle_addr = or_admin state \<or> oracle_addr \<in> set (oracle_addresses state) then
            (case match_store state match_id of
               None \<Rightarrow> Inl (Abort E_MATCH_NOT_FOUND)
             | Some _ \<Rightarrow>
                 let perf_key = match_id @ bcs_to_bytes player;
                     performance = \<lparr>pf_match_id = match_id, pf_player = player,
                                    pf_performance_score = performance_score,
                                    pf_effort_score = effort_score,
                                    pf_reward_tier = reward_tier,
                                    pf_timestamp = now, pf_verified = True\<rparr>
                 in Inr (w\<lparr>oracle_state := (oracle_state w)(spp \<mapsto>
                          state\<lparr>performance_store :=
                                  (performance_store state)(perf_key \<mapsto> performance)\<rparr>)\<rparr>))
          else Inl (Abort E_NOT_AUTHORIZED))"

definition record_cricket_performance ::
  "move_address \<Rightarrow> move_address \<Rightarrow> nat \<Rightarrow> bytes \<Rightarrow> move_address \<Rightarrow> nat \<Rightarrow> nat \<Rightarrow> nat \<Rightarrow> nat \<Rightarrow> nat \<Rightarrow> nat
     \<Rightarrow> move_world \<Rightarrow> move_error + move_world" where
  "record_cricket_performance spp oracle_addr now match_id player runs balls_faced wickets
       overs_bowled runs_conceded maiden_overs w =
     (case oracle_state w spp of
        None \<Rightarrow> Inl MISSING_DATA
      | Some state \<Rightarrow>
          if oracle_addr = or_admin state \<or> oracle_addr \<in> set (oracle_addresses state) then
            (case match_store state match_id of
               None \<Rightarrow> Inl (Abort E_MATCH_NOT_FOUND)
             | Some _ \<Rightarrow>
                 let perf_key = match_id @ bcs_to_bytes player;
                     cricket_perf = \<lparr>cr_match_id = match_id, cr_player = player,
                                     cr_runs = runs, cr_balls_faced = balls_faced,
                                     cr_wickets = wickets, cr_overs_bowled = overs_bowled,
                                     cr_runs_conceded = runs_conceded,
                                     cr_maiden_overs = maiden_overs, cr_timestamp = now\<rparr>
                 in Inr (w\<lparr>oracle_state := (oracle_state w)(spp \<mapsto>
                          state\<lparr>cricket_performance_store :=
                                  (cricket_performance_store state)(perf_key \<mapsto> cricket_perf)\<rparr>)\<rparr>))
          else Inl (Abort E_NOT_AUTHORIZED))"

subsection \<open>Transactions\<close>

text \<open>
  A transaction calls one entry function of the four modules; its first argument is
  the address of the signer, and \<open>now\<close> is the block time where the function reads it. \<open>move_exec\<close> is the effect on the
  store: an aborted transaction leaves the store as it was.
\<close>

datatype move_call =
  Deflatinary_burn_initialize move_address
  | Burn_for_performance move_address nat bytes nat nat nat
  | Reward_tiers_initialize move_address
  | Update_tier move_address nat nat nat nat
  | Spp_token_initialize move_address
  | Spp_token_burn move_address nat
  | Spp_token_mint move_address move_address nat
  | Set_paused move_address bool
  | Performance_oracle_initialize move_address
  | Add_oracle move_address move_address
  | Register_match move_address nat bytes nat
  | Finalize_match move_address nat bytes nat bytes
  | Record_performance move_address nat bytes move_address nat nat nat
  | Record_cricket_performance move_address nat bytes move_address nat nat nat nat nat nat

fun move_apply :: "move_address \<Rightarrow> move_call \<Rightarrow> move_world \<Rightarrow> move_error + move_world" where
  "move_apply spp (Deflatinary_burn_initialize a) w = deflatinary_burn_initialize a w"
| "move_apply spp (Burn_for_performance a now match_id tier performance_score effort_score) w =
     burn_for_performance spp a now match_id tier performance_score effort_score w"
| "move_apply spp (Reward_tiers_initialize a) w = reward_tiers_initialize a w"
| "move_apply spp (Update_tier a tier multiplier base_reward min_score) w =
     update_tier spp a tier multiplier base_reward min_score w"
| "move_apply spp (Spp_token_initialize a) w = spp_token_initialize a w"
| "move_apply spp (Spp_token_burn a amount) w = spp_token_burn spp a amount w"
| "move_apply spp (Spp_token_mint a to amount) w = spp_token_mint spp a to amount w"
| "move_apply spp (Set_paused a paused) w = set_paused spp a paused w"
| "move_apply spp (Performance_oracle_initialize a) w = performance_oracle_initialize a w"
| "move_apply spp (Add_oracle a oracle_addr) w = add_oracle spp a oracle_addr w"
| "move_apply spp (Register_match a now match_id sport) w = register_match spp a now match_id sport w"
| "move_apply spp (Finalize_match a now match_id winner data_hash) w =
     finalize_match spp a now match_id winner data_hash w"
| "move_apply spp (Record_performance a now match_id player performance_score effort_score reward_tier) w =
     record_performance spp a now match_id player performance_score effort_score reward_tier w"
| "move_apply spp (Record_cricket_performance a now match_id player runs balls_faced wickets
                      overs_bowled runs_conceded maiden_overs) w =
     record_cricket_performance spp a now match_id player runs balls_faced wickets
       overs_bowled runs_conceded maiden_overs w"

definition move_exec :: "move_address \<Rightarrow> move_world \<Rightarrow> move_call \<Rightarrow> move_world" where
  "move_exec spp w c = (case move_apply spp c w of Inl e \<Rightarrow> w | Inr w' \<Rightarrow> w')"

definition move_run :: "move_address \<Rightarrow> move_world \<Rightarrow> move_call list \<Rightarrow> move_world" where
  "move_run spp w cs = foldl (move_exec spp) w cs"


section \<open>The chain registry (ChainRegistryService)\<close>

datatype ChainType = ARBITRUM | SOLANA | BNB | OPBNB | APTOS

record ChainStatus =
  chainType :: ChainType
  isHealthy :: bool
  lastHealthCheck :: nat
  failureCount :: nat
  lastError :: "string option"

text \<open>
  An entry of the registry. The adapter object is identified by the chain type it was
  created for by \<open>createChainAdapter\<close>; the stored configuration is not read by the
  functions below and is left out.
\<close>

record ChainEntry =
  adapter :: ChainType
  status :: ChainStatus

text \<open>\<open>RegistryConfig\<close>: every field is optional in the source.\<close>

record RegistryConfig =
  healthCheckInterval :: "nat option"
  maxFailures :: "nat option"
  enableFailover :: "bool option"
  primaryChain :: "ChainType option"

text \<open>
  The service: the map \<open>chains\<close>, a JavaScript \<open>Map\<close>, as an association list in
  insertion order, and the configuration.
\<close>

record ChainRegistryService =
  chains :: "(ChainType \<times> ChainEntry) list"
  config :: RegistryConfig

datatype registry_error =
  Chain_not_registered ChainType
  | No_healthy_chains_available
  | Unsupported_chain_type ChainType
  | Initialize_failed string

text \<open>The configuration the service starts with.\<close>

definition default_config :: RegistryConfig where
  "default_config =
     \<lparr>healthCheckInterval = Some 60000, maxFailures = Some 3, enableFailover = Some True,
      primaryChain = Some ARBITRUM\<rparr>"

definition new_registry :: ChainRegistryService where
  "new_registry = \<lparr>chains = [], config = default_config\<rparr>"

text \<open>
  \<open>Map.set\<close>: the value of a key already present is replaced where it stands; a new key
  goes to the end.
\<close>

fun map_set :: "('k \<times> 'v) list \<Rightarrow> 'k \<Rightarrow> 'v \<Rightarrow> ('k \<times> 'v) list" where
  "map_set [] k v = [(k, v)]"
| "map_set ((k', v') # m) k v = (if k' = k then (k, v) # m else (k', v') # map_set m k v)"

text \<open>\<open>createChainAdapter\<close>: the switch has no case for Solana.\<close>

fun createChainAdapter :: "ChainType \<Rightarrow> registry_error + ChainType" where
  "createChainAdapter ARBITRUM = Inr ARBITRUM"
| "createChainAdapter BNB = Inr BNB"
| "createChainAdapter OPBNB = Inr OPBNB"
| "createChainAdapter APTOS = Inr APTOS"
| "createChainAdapter SOLANA = Inl (Unsupported_chain_type SOLANA)"

text \<open>
  \<open>registerChain\<close>. \<open>init\<close> is the outcome of \<open>adapter.initialize(config)\<close>: \<open>None\<close>
  when it resolves, the message when it throws. \<open>now\<close> is the current time.
\<close>

definition registerChain ::
  "ChainType \<Rightarrow> string option \<Rightarrow> nat \<Rightarrow> ChainRegistryService \<Rightarrow> registry_error + ChainRegistryService" where
  "registerChain ct init now r =
     (case createChainAdapter ct of
        Inl e \<Rightarrow> Inl e
      | Inr a \<Rightarrow>
          (case init of
             Some msg \<Rightarrow> Inl (Initialize_failed msg)
           | None \<Rightarrow>
               let entry = \<lparr>adapter = a,
                            status = \<lparr>chainType = ct, isHealthy = True, lastHealthCheck = now,
                                      failureCount = 0, lastError = None\<rparr>\<rparr>
               in Inr (r\<lparr>chains := map_set (chains r) ct entry\<rparr>)))"

text \<open>The first entry, in iteration order, whose status is healthy.\<close>

fun first_healthy :: "(ChainType \<times> ChainEntry) list \<Rightarrow> registry_error + ChainType" where
  "first_healthy [] = Inl No_healthy_chains_available"
| "first_healthy ((k, entry) # m) =
     (if isHealthy (status entry) then Inr (adapter entry) else first_healthy m)"

definition getHealthyAdapter :: "ChainRegistryService \<Rightarrow> registry_error + ChainType" where
  "getHealthyAdapter r =
     (case primaryChain (config r) of
        None \<Rightarrow> first_healthy (chains r)
      | Some pc \<Rightarrow>
          (case map_of (chains r) pc of
             None \<Rightarrow> first_healthy (chains r)
           | Some primary \<Rightarrow>
               if isHealthy (status primary) then Inr (adapter primary)
               else first_healthy (chains r)))"

text \<open>
  \<open>getAdapter\<close>. The test \<open>!entry.status.isHealthy && this.config.enableFailover\<close>
  holds when the entry is unhealthy and the option is set to \<open>true\<close>.
\<close>

definition getAdapter :: "ChainRegistryService \<Rightarrow> ChainType \<Rightarrow> registry_error + ChainType" where
  "getAdapter r ct =
     (case map_of (chains r) ct of
        None \<Rightarrow> Inl (Chain_not_registered ct)
      | Some entry \<Rightarrow>
          if \<not> isHealthy (status entry) \<and> enableFailover (config r) = Some True
          then getHealthyAdapter r
          else Inr (adapter entry))"

text \<open>\<open>this.config.maxFailures || 3\<close>: an absent or zero value gives 3.\<close>

definition maxFailures_or_3 :: "RegistryConfig \<Rightarrow> nat" where
  "maxFailures_or_3 c =
     (case maxFailures c of None \<Rightarrow> 3 | Some n \<Rightarrow> if n = 0 then 3 else n)"

text \<open>The outcome of \<open>adapter.healthCheck()\<close>: the boolean it resolves to, or a throw.\<close>

datatype probe = Resolves bool | Throws string

text \<open>
  \<open>checkChainHealth\<close>: the update of the entry's status, and the returned boolean.
  The emitted notifications are not modelled.
\<close>

definition probe_status :: "RegistryConfig \<Rightarrow> probe \<Rightarrow> nat \<Rightarrow> ChainStatus \<Rightarrow> ChainStatus" where
  "probe_status c p now st =
     (case p of
        Resolves True \<Rightarrow>
          st\<lparr>lastHealthCheck := now, failureCount := 0, isHealthy := True, lastError := None\<rparr>
      | Resolves False \<Rightarrow>
          let st1 = st\<lparr>lastHealthCheck := now, failureCount := failureCount st + 1\<rparr>
          in if failureCount st1 \<ge> maxFailures_or_3 c then st1\<lparr>isHealthy := False\<rparr> else st1
      | Throws msg \<Rightarrow>
          let st1 = st\<lparr>failureCount := failureCount st + 1, lastError := Some msg,
                       lastHealthCheck := now\<rparr>
          in if failureCount st1 \<ge> maxFailures_or_3 c then st1\<lparr>isHealthy := False\<rparr> else st1)"

definition probe_result :: "probe \<Rightarrow> bool" where
  "probe_result p = (case p of Resolves b \<Rightarrow> b | Throws msg \<Rightarrow> False)"

definition checkChainHealth ::
  "ChainType \<Rightarrow> probe \<Rightarrow> nat \<Rightarrow> ChainRegistryService \<Rightarrow> registry_error + (bool \<times> ChainRegistryService)" where
  "checkChainHealth ct p now r =
     (case map_of (chains r) ct of
        None \<Rightarrow> Inl (Chain_not_registered ct)
      | Some entry \<Rightarrow>
          let entry' = entry\<lparr>status := probe_status (config r) p now (status entry)\<rparr>
          in Inr (probe_result p, r\<lparr>chains := map_set (chains r) ct entry'\<rparr>))"

text \<open>
  \<open>configure\<close>: the fields given in the partial configuration replace the current ones.
\<close>

definition configure :: "RegistryConfig \<Rightarrow> ChainRegistryService \<Rightarrow> ChainRegistryService" where
  "configure c r =
     r\<lparr>config :=
         \<lparr>healthCheckInterval =
            (case healthCheckInterval c of None \<Rightarrow> healthCheckInterval (config r) | Some v \<Rightarrow> Some v),
          maxFailures =
            (case maxFailures c of None \<Rightarrow> maxFailures (config r) | Some v \<Rightarrow> Some v),
          enableFailover =
            (case enableFailover c of None \<Rightarrow> enableFailover (config r) | Some v \<Rightarrow> Some v),
          primaryChain =
            (case primaryChain c of None \<Rightarrow> primaryChain (config r) | Some v \<Rightarrow> Some v)\<rparr>\<rparr>"

definition unregisterChain :: "ChainType \<Rightarrow> ChainRegistryService \<Rightarrow> ChainRegistryService" where
  "unregisterChain ct r = r\<lparr>chains := filter (\<lambda>(k, e). k \<noteq> ct) (chains r)\<rparr>"

text \<open>
  The operations that change the registry, and their effect on it: an operation that
  throws leaves the registry as it was.
\<close>

datatype registry_call =
  RegisterChain ChainType "string option" nat
  | UnregisterChain ChainType
  | Configure RegistryConfig
  | CheckChainHealth ChainType probe nat

fun registry_exec :: "ChainRegistryService \<Rightarrow> registry_call \<Rightarrow> ChainRegistryService" where
  "registry_exec r (RegisterChain ct init now) =
     (case registerChain ct init now r of Inl e \<Rightarrow> r | Inr r' \<Rightarrow> r')"
| "registry_exec r (UnregisterChain ct) = unregisterChain ct r"
| "registry_exec r (Configure c) = configure c r"
| "registry_exec r (CheckChainHealth ct p now) =
     (case checkChainHealth ct p now r of Inl e \<Rightarrow> r | Inr (b, r') \<Rightarrow> r')"

definition registry_run :: "ChainRegistryService \<Rightarrow> registry_call list \<Rightarrow> ChainRegistryService" where
  "registry_run r cs = foldl registry_exec r cs"

text \<open>The status recorded for a chain, if it is registered.\<close>

definition getChainStatus :: "ChainRegistryService \<Rightarrow> ChainType \<Rightarrow> registry_error + ChainStatus" where
  "getChainStatus r ct =
     (case map_of (chains r) ct of
        None \<Rightarrow> Inl (Chain_not_registered ct)
      | Some entry \<Rightarrow> Inr (status entry))"

section \<open>The reward formula of the specification\<close>

text \<open>
  The specification's reward,
  \<open>floor(baseReward * effortScore / 100 * multiplier / multiplierScale)\<close>, over the
  rationals, and its burn, \<open>floor(reward / 10)\<close>.
\<close>

definition spec_reward :: "nat \<Rightarrow> nat \<Rightarrow> nat \<Rightarrow> nat \<Rightarrow> nat" where
  "spec_reward baseReward effortScore multiplier multiplierScale =
     nat \<lfloor>(of_nat baseReward * of_nat effortScore / 100 * of_nat multiplier
            / of_nat multiplierScale :: rat)\<rfloor>"

definition spec_burn :: "nat \<Rightarrow> nat" where
  "spec_burn reward = nat \<lfloor>(of_nat reward / 10 :: rat)\<rfloor>"


section \<open>The invariant of the Move burn engine\<close>

text \<open>
  Every stored record burns a tenth of its reward (integer division); the two totals
  are the sums over the stored records, and also the sums of the per-player tallies.
  The tables hold finitely many entries.
\<close>

definition records_sum :: "(BurnRecord \<Rightarrow> nat) \<Rightarrow> (bytes \<rightharpoonup> BurnRecord) \<Rightarrow> nat" where
  "records_sum f t = (\<Sum>k \<in> dom t. f (the (t k)))"

definition tally_sum :: "(move_address \<rightharpoonup> nat) \<Rightarrow> nat" where
  "tally_sum t = (\<Sum>a \<in> dom t. the (t a))"

definition burn_engine_inv :: "BurnEngineState \<Rightarrow> bool" where
  "burn_engine_inv st =
     (finite (dom (burn_records st)) \<and> finite (dom (player_burned st)) \<and>
      finite (dom (player_rewards st)) \<and>
      (\<forall>k r. burn_records st k = Some r \<longrightarrow> br_burn_amount r = br_reward_amount r div 10) \<and>
      total_burned st = records_sum br_burn_amount (burn_records st) \<and>
      total_burned st = tally_sum (player_burned st) \<and>
      total_rewards st = records_sum br_reward_amount (burn_records st) \<and>
      total_rewards st = tally_sum (player_rewards st))"

section \<open>Deployments used in the examples\<close>

text \<open>
  The Solidity contract as its constructor leaves it, deployed by account 1 with token
  contract 2 and oracle 3; and a stand-in for the hash of the transaction key.
\<close>

definition deployed :: DeflatinaryBurn where
  "deployed =
     \<lparr>owner = 1, tokenContract = 2, oracleContract = 3,
      burnMultipliers = constructor_burnMultipliers,
      baseRewards = constructor_baseRewards,
      totalBurnedAmount = 0, totalRewardsDistributed = 0,
      playerTotalRewards = (\<lambda>_. 0), playerTotalBurned = (\<lambda>_. 0),
      burnTransactions = (\<lambda>_. zero_BurnTransaction)\<rparr>"

definition sample_hash :: "bytes32 \<Rightarrow> sol_address \<Rightarrow> bytes32" where
  "sample_hash m p = m + ucast p"

text \<open>
  The Move package published at address 1: the four modules initialised by that
  account, in a store that held nothing. The match identifier \<open>M1\<close> in ASCII.
\<close>

definition initialized_world :: move_world where
  "initialized_world =
     move_run 1 empty_world
       [Reward_tiers_initialize 1, Spp_token_initialize 1, Deflatinary_burn_initialize 1,
        Performance_oracle_initialize 1]"

definition match_M1 :: bytes where
  "match_M1 = [77, 49]"

text \<open>The store after match \<open>M1\<close> was registered and then finalized by the admin.\<close>

definition finalized_world :: move_world where
  "finalized_world =
     move_run 1 initialized_world
       [Register_match 1 100 match_M1 0, Finalize_match 1 200 match_M1 1 [171, 205]]"


text \<open>
  A registry with the default configuration (primary chain Arbitrum, failover enabled,
  three failures allowed) in which Arbitrum and BNB were registered and Arbitrum then
  failed three probes in a row.
\<close>

definition failed_over_registry :: ChainRegistryService where
  "failed_over_registry =
     registry_run new_registry
       [RegisterChain ARBITRUM None 0, RegisterChain BNB None 0,
        CheckChainHealth ARBITRUM (Resolves False) 60,
        CheckChainHealth ARBITRUM (Resolves False) 120,
        CheckChainHealth ARBITRUM (Resolves False) 180]"

text \<open>The partial configuration \<open>{ enableFailover: false }\<close>.\<close>

definition failover_off :: RegistryConfig where
  "failover_off =
     \<lparr>healthCheckInterval = None, maxFailures = None, enableFailover = Some False,
      primaryChain = None\<rparr>"

section \<open>Properties of the address canonicalisation\<close>

lemma utf16_0x: "utf16 ''0x'' = [48, 120]"
  by (simp add: utf16_def)

lemma unat_ascii_lower:
  "unat (ascii_lower c) = (if 65 \<le> unat c \<and> unat c \<le> 90 then unat c + 32 else unat c)"
proof (cases "65 \<le> unat c \<and> unat c \<le> 90")
  case True
  have "unat (of_nat (unat c + 32) :: 16 word) = (unat c + 32) mod 2 ^ 16"
    by (simp only: unat_of_nat len_of_numeral_defs) simp
  also have "\<dots> = unat c + 32" using True by simp
  finally have "unat (of_nat (unat c + 32) :: 16 word) = unat c + 32" .
  moreover have "ascii_lower c = of_nat (unat c + 32)"
    using True by (simp only: ascii_lower_def simp_thms if_True)
  ultimately show ?thesis using True by (simp only: simp_thms if_True)
next
  case False
  then show ?thesis by (simp only: ascii_lower_def simp_thms if_False)
qed

lemma ascii_lower_stable: "is_ascii_not_upper c \<Longrightarrow> ascii_lower c = c"
  by (auto simp: ascii_lower_def is_ascii_not_upper_def)

lemma hex_lower: "is_hex_char c \<Longrightarrow> is_lower_hex_char (ascii_lower c)"
  unfolding is_hex_char_def is_lower_hex_char_def unat_ascii_lower by auto

lemma lower_hex_is_hex: "is_lower_hex_char c \<Longrightarrow> is_hex_char c"
  by (auto simp: is_hex_char_def is_lower_hex_char_def)

lemma hex_is_ascii: "is_hex_char c \<Longrightarrow> is_ascii c"
  by (auto simp: is_hex_char_def is_ascii_def)

lemma hex_not_x: "is_hex_char c \<Longrightarrow> ascii_lower c \<noteq> 120"
proof
  assume h: "is_hex_char c" and e: "ascii_lower c = 120"
  have "unat (ascii_lower c) = 120" by (simp add: e)
  with h show False
    unfolding is_hex_char_def unat_ascii_lower by (auto split: if_splits)
qed

lemma strip_0x_prefixed: "strip_0x (48 # 120 # s) = s"
  by (simp add: strip_0x_def utf16_0x)

lemma strip_0x_cases:
  obtains (prefixed) "s = 48 # 120 # strip_0x s" | (plain) "strip_0x s = s"
proof (cases "take 2 s = utf16 ''0x''")
  case True
  then have "s = 48 # 120 # drop 2 s"
    by (cases s; cases "tl s") (auto simp: utf16_0x)
  with True prefixed show ?thesis by (simp add: strip_0x_def)
next
  case False
  with plain show ?thesis by (simp add: strip_0x_def)
qed

lemma length_padStart: "n \<le> length (padStart n c s)"
  by (simp add: padStart_def)

lemma padStart_long: "n \<le> length s \<Longrightarrow> padStart n c s = s"
  by (simp add: padStart_def)

lemma not_upper_0x: "list_all is_ascii_not_upper [48, 120]"
  by (simp add: is_ascii_not_upper_def)

lemma not_upper_zeros: "list_all is_ascii_not_upper (replicate n 48)"
  by (simp add: is_ascii_not_upper_def list_all_iff)

lemma formatAddress_idem:
  assumes "is_toLowerCase toLowerCase"
  shows "formatAddress toLowerCase (formatAddress toLowerCase a) = formatAddress toLowerCase a"
proof -
  from assms have idem: "\<And>s. toLowerCase (toLowerCase s) = toLowerCase s"
    and pre: "\<And>u s. list_all is_ascii_not_upper u \<Longrightarrow>
                (toLowerCase (u @ s) = u @ s) = (toLowerCase s = s)"
    by (simp_all add: is_toLowerCase_def)
  define l where "l = toLowerCase a"
  define p where "p = padStart 64 48 (strip_0x l)"
  have fix_l: "toLowerCase l = l" by (simp add: l_def idem)
  have fix_strip: "toLowerCase (strip_0x l) = strip_0x l"
  proof (cases l rule: strip_0x_cases)
    case prefixed
    then have "toLowerCase ([48, 120] @ strip_0x l) = [48, 120] @ strip_0x l"
      using fix_l by simp
    then show ?thesis by (simp only: pre[OF not_upper_0x])
  next
    case plain
    then show ?thesis by (simp add: fix_l)
  qed
  have "toLowerCase (replicate (64 - length (strip_0x l)) 48 @ strip_0x l) =
          replicate (64 - length (strip_0x l)) 48 @ strip_0x l"
    by (simp only: pre[OF not_upper_zeros] fix_strip)
  then have fix_p: "toLowerCase p = p" by (simp add: p_def padStart_def)
  have "toLowerCase ([48, 120] @ p) = [48, 120] @ p"
    by (simp only: pre[OF not_upper_0x] fix_p)
  then have fix_fa: "toLowerCase (48 # 120 # p) = 48 # 120 # p" by simp
  have fa: "formatAddress toLowerCase a = 48 # 120 # p"
    by (simp add: formatAddress_def p_def l_def utf16_0x)
  have len: "64 \<le> length p"
    unfolding p_def by (rule length_padStart)
  have "formatAddress toLowerCase (48 # 120 # p) = 48 # 120 # p"
    unfolding formatAddress_def Let_def fix_fa strip_0x_prefixed
    using len by (simp add: padStart_long utf16_0x)
  then show ?thesis by (simp add: fa)
qed

lemma valid_is_ascii:
  assumes "validateAddress a"
  shows "list_all is_ascii a"
proof (cases a rule: strip_0x_cases)
  case prefixed
  from assms have "list_all is_ascii (strip_0x a)"
    by (auto simp: validateAddress_def Let_def list_all_iff hex_is_ascii)
  moreover have "is_ascii 48" "is_ascii 120" by (simp_all add: is_ascii_def)
  ultimately have "list_all is_ascii (48 # 120 # strip_0x a)" by simp
  with prefixed show ?thesis by simp
next
  case plain
  with assms show ?thesis
    by (auto simp: validateAddress_def Let_def list_all_iff hex_is_ascii)
qed

lemma strip_valid_lower:
  assumes "validateAddress a"
  shows "strip_0x (map ascii_lower a) = map ascii_lower (strip_0x a)"
proof (cases "take 2 a = utf16 ''0x''")
  case True
  then obtain s where a: "a = 48 # 120 # s"
    by (cases a; cases "tl a") (auto simp: utf16_0x)
  have "ascii_lower 48 = 48" "ascii_lower 120 = 120" by (simp_all add: ascii_lower_def)
  then show ?thesis by (simp add: a strip_0x_prefixed)
next
  case False
  then have sa: "strip_0x a = a" by (simp add: strip_0x_def)
  with assms have hex: "list_all is_hex_char a" by (simp add: validateAddress_def Let_def)
  have "take 2 (map ascii_lower a) \<noteq> utf16 ''0x''"
  proof
    assume t: "take 2 (map ascii_lower a) = utf16 ''0x''"
    then obtain c d s where a: "a = c # d # s"
      by (cases a; cases "tl a") (auto simp: utf16_0x)
    from t a have "ascii_lower d = 120" by (simp add: utf16_0x)
    moreover from hex a have "is_hex_char d" by simp
    ultimately show False using hex_not_x by blast
  qed
  with False show ?thesis by (simp add: strip_0x_def)
qed

lemma formatAddress_valid:
  assumes low: "is_toLowerCase toLowerCase" and valid: "validateAddress a"
  shows "\<exists>h. formatAddress toLowerCase a = utf16 ''0x'' @ h \<and> length h = 64 \<and>
             list_all is_lower_hex_char h \<and> validateAddress (formatAddress toLowerCase a)"
proof -
  define cl where "cl = strip_0x a"
  define h where "h = padStart 64 48 (map ascii_lower cl)"
  from valid have len: "1 \<le> length cl" "length cl \<le> 64" and hex: "list_all is_hex_char cl"
    by (simp_all add: validateAddress_def cl_def Let_def)
  from low valid_is_ascii[OF valid] have la: "toLowerCase a = map ascii_lower a"
    by (simp add: is_toLowerCase_def)
  have fa: "formatAddress toLowerCase a = utf16 ''0x'' @ h"
    by (simp add: formatAddress_def h_def cl_def la strip_valid_lower[OF valid])
  have lh: "length h = 64"
    using len by (simp add: h_def padStart_def)
  have z: "is_lower_hex_char 48"
    by (simp add: is_lower_hex_char_def)
  have lowhex: "list_all is_lower_hex_char h"
    using hex z by (auto simp: h_def padStart_def list_all_iff hex_lower)
  have "list_all is_hex_char h"
    using lowhex by (auto simp: list_all_iff lower_hex_is_hex)
  then have "validateAddress (utf16 ''0x'' @ h)"
    using lh by (simp add: validateAddress_def strip_0x_def Let_def utf16_0x)
  with fa lh lowhex show ?thesis by auto
qed

lemma ascii_lower_idem: "ascii_lower (ascii_lower c) = ascii_lower c"
proof (cases "65 \<le> unat c \<and> unat c \<le> 90")
  case True
  then have "\<not> (65 \<le> unat (ascii_lower c) \<and> unat (ascii_lower c) \<le> 90)"
    by (simp add: unat_ascii_lower)
  then show ?thesis by (simp add: ascii_lower_def[of "ascii_lower c"])
next
  case False
  then show ?thesis by (simp add: ascii_lower_def)
qed

lemma is_toLowerCase_ascii: "is_toLowerCase ascii_toLowerCase"
proof -
  have "map ascii_lower u = u" if "list_all is_ascii_not_upper u" for u
    using that by (induction u) (simp_all add: ascii_lower_stable)
  then show ?thesis
    by (simp add: is_toLowerCase_def ascii_toLowerCase_def ascii_lower_idem)
qed

text \<open>
  Claim C10. For every address that \<open>validateAddress\<close> accepts, \<open>formatAddress\<close>
  returns \<open>0x\<close> followed by exactly 64 lower-case hexadecimal characters, a string that
  \<open>validateAddress\<close> accepts again; and \<open>formatAddress\<close> is idempotent on every string
  of UTF-16 code units.
\<close>

theorem formatAddress_canonical:
  assumes "is_toLowerCase toLowerCase"
  shows
    "(validateAddress a \<longrightarrow>
        (\<exists>h. formatAddress toLowerCase a = utf16 ''0x'' @ h \<and> length h = 64 \<and>
             list_all is_lower_hex_char h) \<and>
        validateAddress (formatAddress toLowerCase a)) \<and>
     formatAddress toLowerCase (formatAddress toLowerCase a) = formatAddress toLowerCase a"
  using formatAddress_valid[OF assms, of a] formatAddress_idem[OF assms, of a] by blast

theorem formatAddress_canonical_witness:
  "validateAddress (utf16 ''0xAB'') \<and>
   formatAddress ascii_toLowerCase (utf16 ''0xAB'') =
     utf16 ''0x00000000000000000000000000000000000000000000000000000000000000ab'' \<and>
   validateAddress (formatAddress ascii_toLowerCase (utf16 ''0xAB'')) \<and>
   formatAddress ascii_toLowerCase (formatAddress ascii_toLowerCase (utf16 ''0xAB'')) =
     formatAddress ascii_toLowerCase (utf16 ''0xAB'')"
proof -
  have v: "validateAddress (utf16 ''0xAB'')"
    by code_simp
  have f: "formatAddress ascii_toLowerCase (utf16 ''0xAB'') =
      utf16 ''0x00000000000000000000000000000000000000000000000000000000000000ab''"
    by code_simp
  from formatAddress_canonical[OF is_toLowerCase_ascii, of "utf16 ''0xAB''"] v f
  show ?thesis by blast
qed

section \<open>Properties of the cricket tier selection\<close>

lemma aptos_determineCricketTier_spec:
  "aptos_determineCricketTier p = spec_cricket_tier (cp_runs p) (cp_wickets p) (cp_maidenOvers p)"
  by (simp add: aptos_determineCricketTier_def spec_cricket_tier_def)

lemma opbnb_determineCricketTier_spec:
  "opbnb_determineCricketTier p = spec_cricket_tier (cp_runs p) (cp_wickets p) (cp_maidenOvers p)"
  by (simp add: opbnb_determineCricketTier_def spec_cricket_tier_def)

lemma arbitrum_tier_last_rule_wins:
  "arbitrum_recordCricketPerformance_tier p =
     (if cp_maidenOvers p \<ge> 3 then MAIDEN_MASTER
      else if cp_wickets p \<ge> 5 then FIVE_WICKET_HAUL
      else if cp_wickets p \<ge> 3 then HAT_TRICK
      else if cp_runs p \<ge> 100 then GAYLE_STORM
      else if cp_runs p \<ge> 50 then NIFTY_FIFTY
      else ALL_ROUNDER)"
  by (simp add: arbitrum_recordCricketPerformance_tier_def Let_def)

text \<open>
  Claim C5. Every adapter is to select the tier by the ordered rules, a century first.
  The Aptos and opBNB adapters do (the two lemmas above). The Arbitrum adapter does
  not: for a player with 100 runs and 3 wickets it selects \<open>HAT_TRICK\<close>, where the
  ordered rules, and the other two adapters, select \<open>GAYLE_STORM\<close>.
\<close>

theorem arbitrum_tier_differs:
  "arbitrum_recordCricketPerformance_tier
     \<lparr>cp_matchId = ''M1'', cp_player = ''0x1'', cp_runs = 100, cp_ballsFaced = 60,
      cp_wickets = 3, cp_oversBowled = 4, cp_runsConceded = 20, cp_maidenOvers = 0\<rparr> = HAT_TRICK \<and>
   aptos_determineCricketTier
     \<lparr>cp_matchId = ''M1'', cp_player = ''0x1'', cp_runs = 100, cp_ballsFaced = 60,
      cp_wickets = 3, cp_oversBowled = 4, cp_runsConceded = 20, cp_maidenOvers = 0\<rparr> = GAYLE_STORM \<and>
   opbnb_determineCricketTier
     \<lparr>cp_matchId = ''M1'', cp_player = ''0x1'', cp_runs = 100, cp_ballsFaced = 60,
      cp_wickets = 3, cp_oversBowled = 4, cp_runsConceded = 20, cp_maidenOvers = 0\<rparr> = GAYLE_STORM \<and>
   spec_cricket_tier 100 3 0 = GAYLE_STORM"
  by (simp add: arbitrum_recordCricketPerformance_tier_def aptos_determineCricketTier_def
      opbnb_determineCricketTier_def spec_cricket_tier_def)

section \<open>Properties of the reward computation\<close>

lemma floor_nat_div: "nat \<lfloor>(of_nat a / of_nat b :: rat)\<rfloor> = a div b"
proof -
  have "(of_nat a / of_nat b :: rat) = of_int (int a) / of_int (int b)" by simp
  then have "\<lfloor>(of_nat a / of_nat b :: rat)\<rfloor> = int a div int b"
    by (simp only: floor_divide_of_int_eq)
  then show ?thesis by (simp add: zdiv_int[symmetric])
qed

lemma spec_reward_div:
  "spec_reward b e m sc = (b * e * m) div (100 * sc)"
proof -
  have "(of_nat b * of_nat e / 100 * of_nat m / of_nat sc :: rat)
        = of_nat (b * e * m) / of_nat (100 * sc)"
    by (simp add: field_simps)
  then show ?thesis
    unfolding spec_reward_def by (simp only: floor_nat_div)
qed

lemma spec_burn_div: "spec_burn r = r div 10"
proof -
  have "(of_nat r / 10 :: rat) = of_nat r / of_nat 10" by simp
  then show ?thesis unfolding spec_burn_def by (simp only: floor_nat_div)
qed

lemma calculateReward_value:
  assumes "tier \<le> 7" "e \<le> 100"
    and "baseRewards s tier * e < 2 ^ 256"
    and "baseRewards s tier * e div 100 * burnMultipliers s tier < 2 ^ 256"
  shows "calculateReward s tier e = Inr (baseRewards s tier * e div 100 * burnMultipliers s tier div 10)"
  using assms by (simp add: calculateReward_def TIER_ALL_ROUNDER_def checked_mul_def Let_def)

lemma nested_floor:
  assumes "100 dvd (b::nat) * e"
  shows "b * e div 100 * m div 10 = b * e * m div (100 * 10)"
proof -
  from assms obtain k where k: "b * e = 100 * k" by (auto simp: dvd_def)
  have "b * e * m div (100 * 10) = (100 * (k * m)) div (100 * 10)" by (simp add: k mult.assoc)
  also have "\<dots> = k * m div 10" by simp
  finally show ?thesis by (simp add: k)
qed

lemma calculate_reward_value:
  assumes "get_tier_config spp w tier = Inr (multiplier, base_reward)"
    and "base_reward * multiplier < 2 ^ 64"
    and "base_reward * multiplier * e < 2 ^ 64"
  shows "calculate_reward spp w tier e = Inr (base_reward * multiplier * e div 10000)"
  using assms by (simp add: calculate_reward_def u64_mul_def Let_def)

lemma calculate_reward_spec:
  assumes "get_tier_config spp w tier = Inr (multiplier, base_reward)"
    and "base_reward * multiplier < 2 ^ 64"
    and "base_reward * multiplier * e < 2 ^ 64"
  shows "calculate_reward spp w tier e = Inr (spec_reward base_reward e multiplier 100)"
proof -
  have eq: "spec_reward base_reward e multiplier 100 = base_reward * multiplier * e div 10000"
    by (simp add: spec_reward_div mult_ac)
  show ?thesis by (simp only: calculate_reward_value[OF assms] eq)
qed

lemma burnForPerformance_amounts:
  assumes "burnForPerformance K sender ts m p tier e s = Inr ((burnAmount, rewardAmount), s')"
  shows "calculateReward s tier e = Inr rewardAmount \<and> burnAmount = rewardAmount div 10"
  using assms
  by (auto simp: burnForPerformance_def Let_def split: if_splits sum.splits)


lemma burn_for_performance_amounts:
  assumes "burn_for_performance spp p now m tier ps e w = Inr w'"
  shows "\<exists>st r. burn_engine_state w' spp = Some st \<and>
           burn_records st (m @ bcs_to_bytes p) = Some r \<and>
           calculate_reward spp w tier e = Inr (br_reward_amount r) \<and>
           br_burn_amount r = br_reward_amount r div 10"
  using assms
  by (auto simp: burn_for_performance_def Let_def split: if_splits sum.splits option.splits)

lemma get_tier_config_default:
  assumes "reward_tiers_initialize spp w0 = Inr w"
  shows "get_tier_config spp w 5 = Inr (400, 25000000000)"
  using assms by (auto simp: reward_tiers_initialize_def get_tier_config_def split: option.splits)

section \<open>Properties of the Solidity burn engine\<close>

lemma burnForPerformance_stores:
  assumes "burnForPerformance K sender ts m p t e s = Inr ((b, r), s')"
  shows "burnTransactions s' (computeTxId K m p) =
           \<lparr>bt_matchId = m, bt_player = p, bt_burnAmount = b, bt_rewardAmount = r,
            bt_tier = t, bt_effortScore = e, bt_timestamp = ts, bt_executed = True\<rparr>"
    and "\<not> bt_executed (burnTransactions s (computeTxId K m p))"
  using assms
  by (auto simp: burnForPerformance_def Let_def split: if_splits sum.splits)

lemma burnForPerformance_other_keys:
  assumes "burnForPerformance K sender ts m p t e s = Inr (br, s')"
    and "bt_executed (burnTransactions s k)"
  shows "burnTransactions s' k = burnTransactions s k"
  using assms
  by (auto simp: burnForPerformance_def Let_def split: if_splits sum.splits)

lemma sol_exec_keeps_executed:
  assumes "bt_executed (burnTransactions s k)"
  shows "burnTransactions (sol_exec K s c) k = burnTransactions s k"
proof (cases c)
  case (BurnForPerformance sender ts m p t e)
  show ?thesis
  proof (cases "burnForPerformance K sender ts m p t e s")
    case (Inl err)
    then show ?thesis by (simp add: sol_exec_def BurnForPerformance)
  next
    case (Inr res)
    then obtain br s' where res: "res = (br, s')" by (cases res)
    with Inr burnForPerformance_other_keys[OF _ assms] show ?thesis
      by (simp add: sol_exec_def BurnForPerformance)
  qed
next
  case (UpdateTier sender t mu ba)
  then show ?thesis by (simp add: sol_exec_def updateTier_def)
next
  case (SetOracleContract sender o')
  then show ?thesis by (simp add: sol_exec_def setOracleContract_def)
next
  case (TransferOwnership sender n)
  then show ?thesis by (simp add: sol_exec_def transferOwnership_def)
next
  case (RenounceOwnership sender)
  then show ?thesis by (simp add: sol_exec_def renounceOwnership_def)
qed

lemma sol_run_keeps_executed:
  assumes "bt_executed (burnTransactions s k)"
  shows "burnTransactions (sol_run K s cs) k = burnTransactions s k"
  using assms
proof (induction cs arbitrary: s)
  case Nil
  then show ?case by (simp add: sol_run_def)
next
  case (Cons c cs)
  have step: "burnTransactions (sol_exec K s c) k = burnTransactions s k"
    by (rule sol_exec_keeps_executed[OF Cons.prems])
  with Cons.prems have "bt_executed (burnTransactions (sol_exec K s c) k)" by simp
  from Cons.IH[OF this] step show ?case by (simp add: sol_run_def)
qed

lemma burnForPerformance_duplicate:
  assumes "bt_executed (burnTransactions s (computeTxId K m p))"
  shows "burnForPerformance K sender ts m p t e s =
           (if sender = oracleContract s \<or> sender = owner s then Inl BurnAlreadyExecuted
            else Inl (Require_failed ''Not authorized''))"
  using assms by (simp add: burnForPerformance_def Let_def)

lemma sol_once:
  assumes first: "burnForPerformance K sender ts m p t e s = Inr ((b, r), s1)"
  shows "burnTransactions (sol_run K s1 cs) (computeTxId K m p) =
           \<lparr>bt_matchId = m, bt_player = p, bt_burnAmount = b, bt_rewardAmount = r,
            bt_tier = t, bt_effortScore = e, bt_timestamp = ts, bt_executed = True\<rparr>"
    and "burnForPerformance K sender' ts' m p t' e' (sol_run K s1 cs) =
           (if sender' = oracleContract (sol_run K s1 cs) \<or> sender' = owner (sol_run K s1 cs)
            then Inl BurnAlreadyExecuted else Inl (Require_failed ''Not authorized''))"
    and "sol_exec K (sol_run K s1 cs) (BurnForPerformance sender' ts' m p t' e') = sol_run K s1 cs"
proof -
  let ?k = "computeTxId K m p"
  have st: "burnTransactions s1 ?k =
           \<lparr>bt_matchId = m, bt_player = p, bt_burnAmount = b, bt_rewardAmount = r,
            bt_tier = t, bt_effortScore = e, bt_timestamp = ts, bt_executed = True\<rparr>"
    by (rule burnForPerformance_stores(1)[OF first])
  then have ex: "bt_executed (burnTransactions s1 ?k)" by simp
  have keep: "burnTransactions (sol_run K s1 cs) ?k = burnTransactions s1 ?k"
    by (rule sol_run_keeps_executed[OF ex])
  show 1: "burnTransactions (sol_run K s1 cs) ?k =
           \<lparr>bt_matchId = m, bt_player = p, bt_burnAmount = b, bt_rewardAmount = r,
            bt_tier = t, bt_effortScore = e, bt_timestamp = ts, bt_executed = True\<rparr>"
    by (simp add: keep st)
  then have ex2: "bt_executed (burnTransactions (sol_run K s1 cs) ?k)" by simp
  show 2: "burnForPerformance K sender' ts' m p t' e' (sol_run K s1 cs) =
           (if sender' = oracleContract (sol_run K s1 cs) \<or> sender' = owner (sol_run K s1 cs)
            then Inl BurnAlreadyExecuted else Inl (Require_failed ''Not authorized''))"
    by (rule burnForPerformance_duplicate[OF ex2])
  show "sol_exec K (sol_run K s1 cs) (BurnForPerformance sender' ts' m p t' e') = sol_run K s1 cs"
    by (simp add: sol_exec_def 2)
qed

section \<open>Properties of the Move burn engine\<close>

lemma spp_token_burn_engine:
  "spp_token_burn spp a n w = Inr w' \<Longrightarrow> burn_engine_state w' = burn_engine_state w"
  by (auto simp: spp_token_burn_def split: option.splits if_splits sum.splits)

lemma spp_token_mint_engine:
  "spp_token_mint spp ad a n w = Inr w' \<Longrightarrow> burn_engine_state w' = burn_engine_state w"
  by (auto simp: spp_token_mint_def split: option.splits if_splits sum.splits)

lemma burn_for_performance_success:
  assumes "burn_for_performance spp p now m t ps e w = Inr w'"
  obtains st reward pb pr where
    "burn_engine_state w spp = Some st" "t \<le> 7"
    "burn_records st (m @ bcs_to_bytes p) = None"
    "calculate_reward spp w t e = Inr reward"
    "total_burned st + reward div 10 < 2 ^ 64"
    "total_rewards st + reward < 2 ^ 64"
    "table_add_u64 (player_burned st) p (reward div 10) = Inr pb"
    "table_add_u64 (player_rewards st) p reward = Inr pr"
    "burn_engine_state w' = (burn_engine_state w)(spp \<mapsto>
        st\<lparr>burn_records := (burn_records st)(m @ bcs_to_bytes p \<mapsto>
               \<lparr>br_match_id = m, br_player = p, br_burn_amount = reward div 10,
                br_reward_amount = reward, br_tier = t, br_effort_score = e,
                br_timestamp = now\<rparr>),
           total_burned := total_burned st + reward div 10,
           total_rewards := total_rewards st + reward,
           player_burned := pb, player_rewards := pr\<rparr>)"
proof -
  from assms obtain st where st: "burn_engine_state w spp = Some st"
    by (auto simp: burn_for_performance_def split: option.splits)
  from assms st have t: "t \<le> 7"
    by (auto simp: burn_for_performance_def split: if_splits)
  from assms st t have fresh: "burn_records st (m @ bcs_to_bytes p) = None"
    by (auto simp: burn_for_performance_def Let_def split: option.splits)
  from assms st t fresh obtain reward where rw: "calculate_reward spp w t e = Inr reward"
    by (auto simp: burn_for_performance_def Let_def split: sum.splits)
  from assms st t fresh rw obtain w1 where w1: "spp_token_burn spp p (reward div 10) w = Inr w1"
    by (auto simp: burn_for_performance_def Let_def split: sum.splits)
  from assms st t fresh rw w1 obtain tb where tb: "u64_add (total_burned st) (reward div 10) = Inr tb"
    by (auto simp: burn_for_performance_def Let_def split: sum.splits)
  from assms st t fresh rw w1 tb obtain tr where tr: "u64_add (total_rewards st) reward = Inr tr"
    by (auto simp: burn_for_performance_def Let_def split: sum.splits)
  from assms st t fresh rw w1 tb tr obtain pb where
    pb: "table_add_u64 (player_burned st) p (reward div 10) = Inr pb"
    by (auto simp: burn_for_performance_def Let_def split: sum.splits)
  from assms st t fresh rw w1 tb tr pb obtain pr where
    pr: "table_add_u64 (player_rewards st) p reward = Inr pr"
    by (auto simp: burn_for_performance_def Let_def split: sum.splits)
  from assms st t fresh rw w1 tb tr pb pr obtain w2 where
    w2: "spp_token_mint spp (be_admin st) p reward w1 = Inr w2"
    by (auto simp: burn_for_performance_def Let_def split: sum.splits)
  from tb have tb': "tb = total_burned st + reward div 10" "total_burned st + reward div 10 < 2 ^ 64"
    by (auto simp: u64_add_def split: if_splits)
  from tr have tr': "tr = total_rewards st + reward" "total_rewards st + reward < 2 ^ 64"
    by (auto simp: u64_add_def split: if_splits)
  have e1: "burn_engine_state w2 = burn_engine_state w"
    using spp_token_mint_engine[OF w2] spp_token_burn_engine[OF w1] by simp
  from assms st t fresh rw w1 tb tr pb pr w2 have
    "burn_engine_state w' = (burn_engine_state w)(spp \<mapsto>
        st\<lparr>burn_records := (burn_records st)(m @ bcs_to_bytes p \<mapsto>
               \<lparr>br_match_id = m, br_player = p, br_burn_amount = reward div 10,
                br_reward_amount = reward, br_tier = t, br_effort_score = e,
                br_timestamp = now\<rparr>),
           total_burned := total_burned st + reward div 10,
           total_rewards := total_rewards st + reward,
           player_burned := pb, player_rewards := pr\<rparr>)"
    by (auto simp: burn_for_performance_def Let_def e1 tb' tr')
  with st t fresh rw tb' tr' pb pr that show thesis by blast
qed


lemma move_exec_engine_cases:
  "burn_engine_state (move_exec spp w c) spp = burn_engine_state w spp \<or>
   (\<exists>p now m t ps e. c = Burn_for_performance p now m t ps e \<and>
      burn_for_performance spp p now m t ps e w = Inr (move_exec spp w c)) \<or>
   (c = Deflatinary_burn_initialize spp \<and> burn_engine_state w spp = None \<and>
      burn_engine_state (move_exec spp w c) spp =
        Some \<lparr>be_admin = spp, burn_records = Map.empty, total_burned = 0, total_rewards = 0,
              player_rewards = Map.empty, player_burned = Map.empty\<rparr>)"
proof (cases c)
  case (Deflatinary_burn_initialize a)
  then show ?thesis
    by (auto simp: move_exec_def deflatinary_burn_initialize_def split: option.splits)
next
  case (Burn_for_performance p now m t ps e)
  then show ?thesis
    by (cases "burn_for_performance spp p now m t ps e w") (auto simp: move_exec_def)
next
  case (Reward_tiers_initialize a)
  then show ?thesis
    by (auto simp: move_exec_def reward_tiers_initialize_def split: option.splits)
next
  case (Update_tier a t mu ba mi)
  then show ?thesis
    by (auto simp: move_exec_def update_tier_def Let_def split: option.splits)
next
  case (Spp_token_initialize a)
  then show ?thesis
    by (auto simp: move_exec_def spp_token_initialize_def split: option.splits sum.splits)
next
  case (Spp_token_burn a n)
  then show ?thesis
    by (cases "spp_token_burn spp a n w") (auto simp: move_exec_def dest: spp_token_burn_engine)
next
  case (Spp_token_mint a to n)
  then show ?thesis
    by (cases "spp_token_mint spp a to n w") (auto simp: move_exec_def dest: spp_token_mint_engine)
next
  case (Set_paused a b)
  then show ?thesis
    by (auto simp: move_exec_def set_paused_def split: option.splits)
next
  case (Performance_oracle_initialize a)
  then show ?thesis
    by (auto simp: move_exec_def performance_oracle_initialize_def split: option.splits)
next
  case (Add_oracle a b)
  then show ?thesis
    by (auto simp: move_exec_def add_oracle_def split: option.splits)
next
  case (Register_match a now m sp)
  then show ?thesis
    by (auto simp: move_exec_def register_match_def Let_def split: option.splits)
next
  case (Finalize_match a now m wi h)
  then show ?thesis
    by (auto simp: move_exec_def finalize_match_def Let_def split: option.splits)
next
  case (Record_performance a now m p ps es rt)
  then show ?thesis
    by (auto simp: move_exec_def record_performance_def Let_def split: option.splits)
next
  case (Record_cricket_performance a now m p r1 r2 r3 r4 r5 r6)
  then show ?thesis
    by (auto simp: move_exec_def record_cricket_performance_def Let_def split: option.splits)
qed

lemma move_exec_keeps_record:
  assumes "burn_engine_state w spp = Some st" "burn_records st k = Some r"
  shows "\<exists>st'. burn_engine_state (move_exec spp w c) spp = Some st' \<and> burn_records st' k = Some r"
proof -
  consider
    (same) "burn_engine_state (move_exec spp w c) spp = burn_engine_state w spp"
  | (burn) p now m t ps e where "c = Burn_for_performance p now m t ps e"
      "burn_for_performance spp p now m t ps e w = Inr (move_exec spp w c)"
  | (init) "burn_engine_state w spp = None"
    using move_exec_engine_cases[of spp w c] by (elim disjE exE conjE) auto
  then show ?thesis
  proof cases
    case same
    with assms show ?thesis by simp
  next
    case burn
    from burn(2) show ?thesis
    proof (rule burn_for_performance_success)
      fix st0 reward pb pr
      assume a: "burn_engine_state w spp = Some st0"
        "burn_records st0 (m @ bcs_to_bytes p) = None"
        and upd: "burn_engine_state (move_exec spp w c) = (burn_engine_state w)(spp \<mapsto>
          st0\<lparr>burn_records := (burn_records st0)(m @ bcs_to_bytes p \<mapsto>
               \<lparr>br_match_id = m, br_player = p, br_burn_amount = reward div 10,
                br_reward_amount = reward, br_tier = t, br_effort_score = e,
                br_timestamp = now\<rparr>),
           total_burned := total_burned st0 + reward div 10,
           total_rewards := total_rewards st0 + reward,
           player_burned := pb, player_rewards := pr\<rparr>)"
      from a assms have "st0 = st" "k \<noteq> m @ bcs_to_bytes p" by auto
      with upd assms show ?thesis by simp
    qed
  next
    case init
    with assms show ?thesis by simp
  qed
qed

lemma move_run_keeps_record:
  assumes "burn_engine_state w spp = Some st" "burn_records st k = Some r"
  shows "\<exists>st'. burn_engine_state (move_run spp w cs) spp = Some st' \<and> burn_records st' k = Some r"
  using assms
proof (induction cs arbitrary: w st)
  case Nil
  then show ?case by (simp add: move_run_def)
next
  case (Cons c cs)
  from move_exec_keeps_record[OF Cons.prems, of c] obtain st' where
    "burn_engine_state (move_exec spp w c) spp = Some st'" "burn_records st' k = Some r" by blast
  from Cons.IH[OF this] show ?case by (simp add: move_run_def)
qed

lemma burn_for_performance_duplicate:
  assumes "burn_engine_state w spp = Some st" "burn_records st (m @ bcs_to_bytes p) = Some r"
  shows "burn_for_performance spp p now m t ps e w =
           (if t \<le> 7 then Inl (Abort E_ALREADY_BURNED) else Inl (Abort E_INVALID_TIER))"
  using assms by (simp add: burn_for_performance_def Let_def)

lemma records_sum_add:
  assumes "finite (dom t)" "t k = None"
  shows "records_sum f (t(k \<mapsto> r)) = f r + records_sum f t"
proof -
  have k: "k \<notin> dom t" using assms(2) by (simp add: domIff)
  have d: "dom (t(k \<mapsto> r)) = insert k (dom t)" by simp
  have "records_sum f (t(k \<mapsto> r)) = (\<Sum>x \<in> insert k (dom t). f (the ((t(k \<mapsto> r)) x)))"
    unfolding records_sum_def d ..
  also have "\<dots> = f (the ((t(k \<mapsto> r)) k)) + (\<Sum>x \<in> dom t. f (the ((t(k \<mapsto> r)) x)))"
    using assms(1) k by (rule sum.insert)
  also have "(\<Sum>x \<in> dom t. f (the ((t(k \<mapsto> r)) x))) = (\<Sum>x \<in> dom t. f (the (t x)))"
    using k by (intro sum.cong) auto
  finally have e: "records_sum f (t(k \<mapsto> r)) =
      f (the ((t(k \<mapsto> r)) k)) + (\<Sum>x \<in> dom t. f (the (t x)))" .
  show ?thesis by (simp only: e) (simp add: records_sum_def)
qed

lemma tally_sum_insert:
  assumes "finite (dom t)" "t a = None"
  shows "tally_sum (t(a \<mapsto> n)) = tally_sum t + n"
proof -
  have a: "a \<notin> dom t" using assms(2) by (simp add: domIff)
  have d: "dom (t(a \<mapsto> n)) = insert a (dom t)" by simp
  have "tally_sum (t(a \<mapsto> n)) = (\<Sum>x \<in> insert a (dom t). the ((t(a \<mapsto> n)) x))"
    unfolding tally_sum_def d ..
  also have "\<dots> = the ((t(a \<mapsto> n)) a) + (\<Sum>x \<in> dom t. the ((t(a \<mapsto> n)) x))"
    using assms(1) a by (rule sum.insert)
  also have "(\<Sum>x \<in> dom t. the ((t(a \<mapsto> n)) x)) = (\<Sum>x \<in> dom t. the (t x))"
    using a by (intro sum.cong) auto
  finally have e: "tally_sum (t(a \<mapsto> n)) =
      the ((t(a \<mapsto> n)) a) + (\<Sum>x \<in> dom t. the (t x))" .
  show ?thesis by (simp only: e) (simp add: tally_sum_def)
qed

lemma tally_sum_update:
  assumes "finite (dom t)" "t a = Some cur"
  shows "tally_sum (t(a \<mapsto> cur + n)) = tally_sum t + n"
proof -
  have a: "a \<in> dom t" using assms(2) by (simp add: domIff)
  then have d: "dom (t(a \<mapsto> cur + n)) = dom t" by auto
  have "tally_sum (t(a \<mapsto> cur + n)) = (\<Sum>x \<in> dom t. the ((t(a \<mapsto> cur + n)) x))"
    unfolding tally_sum_def d ..
  also have "\<dots> = the ((t(a \<mapsto> cur + n)) a) + (\<Sum>x \<in> dom t - {a}. the ((t(a \<mapsto> cur + n)) x))"
    using assms(1) a by (rule sum.remove)
  also have "(\<Sum>x \<in> dom t - {a}. the ((t(a \<mapsto> cur + n)) x)) = (\<Sum>x \<in> dom t - {a}. the (t x))"
    by (intro sum.cong) auto
  finally have e: "tally_sum (t(a \<mapsto> cur + n)) =
      the ((t(a \<mapsto> cur + n)) a) + (\<Sum>x \<in> dom t - {a}. the (t x))" .
  have old: "tally_sum t = the (t a) + (\<Sum>x \<in> dom t - {a}. the (t x))"
    unfolding tally_sum_def using assms(1) a by (rule sum.remove)
  show ?thesis by (simp only: e old) (simp add: assms(2))
qed

lemma table_add_u64_sum:
  assumes "finite (dom t)" "table_add_u64 t a n = Inr t'"
  shows "tally_sum t' = tally_sum t + n \<and> finite (dom t')"
proof (cases "t a")
  case None
  with assms(2) have t': "t' = t(a \<mapsto> n)" by (simp add: table_add_u64_def)
  show ?thesis unfolding t' using tally_sum_insert[OF assms(1) None] assms(1) by simp
next
  case (Some cur)
  with assms(2) have t': "t' = t(a \<mapsto> cur + n)"
    by (auto simp: table_add_u64_def u64_add_def split: if_splits)
  show ?thesis unfolding t' using tally_sum_update[OF assms(1) Some] assms(1) by simp
qed

lemma burn_engine_inv_initial:
  "burn_engine_inv \<lparr>be_admin = a, burn_records = Map.empty, total_burned = 0, total_rewards = 0,
              player_rewards = Map.empty, player_burned = Map.empty\<rparr>"
  by (simp add: burn_engine_inv_def records_sum_def tally_sum_def)

lemma burn_engine_inv_burn:
  assumes inv: "burn_engine_inv st"
    and fresh: "burn_records st k = None"
    and pb: "table_add_u64 (player_burned st) p (reward div 10) = Inr pb"
    and pr: "table_add_u64 (player_rewards st) p reward = Inr pr"
    and r: "br_burn_amount r = reward div 10" "br_reward_amount r = reward"
  shows "burn_engine_inv (st\<lparr>burn_records := (burn_records st)(k \<mapsto> r),
           total_burned := total_burned st + reward div 10,
           total_rewards := total_rewards st + reward,
           player_burned := pb, player_rewards := pr\<rparr>)"
proof -
  from inv have fin: "finite (dom (burn_records st))" "finite (dom (player_burned st))"
      "finite (dom (player_rewards st))"
    and amounts: "\<And>k r. burn_records st k = Some r \<Longrightarrow> br_burn_amount r = br_reward_amount r div 10"
    and tb: "total_burned st = records_sum br_burn_amount (burn_records st)"
      "total_burned st = tally_sum (player_burned st)"
    and tr: "total_rewards st = records_sum br_reward_amount (burn_records st)"
      "total_rewards st = tally_sum (player_rewards st)"
    by (auto simp: burn_engine_inv_def)
  note s1 = records_sum_add[OF fin(1) fresh, of br_burn_amount r]
  note s2 = records_sum_add[OF fin(1) fresh, of br_reward_amount r]
  note s3 = table_add_u64_sum[OF fin(2) pb]
  note s4 = table_add_u64_sum[OF fin(3) pr]
  show ?thesis
    unfolding burn_engine_inv_def
    using fin amounts tb tr s1 s2 s3 s4 r by (auto split: if_splits)
qed

lemma move_exec_inv:
  assumes "burn_engine_state w spp = Some st" "burn_engine_inv st"
  shows "\<exists>st'. burn_engine_state (move_exec spp w c) spp = Some st' \<and> burn_engine_inv st'"
proof -
  consider
    (same) "burn_engine_state (move_exec spp w c) spp = burn_engine_state w spp"
  | (burn) p now m t ps e where "c = Burn_for_performance p now m t ps e"
      "burn_for_performance spp p now m t ps e w = Inr (move_exec spp w c)"
  | (init) "burn_engine_state w spp = None"
    using move_exec_engine_cases[of spp w c] by (elim disjE exE conjE) auto
  then show ?thesis
  proof cases
    case same
    with assms show ?thesis by simp
  next
    case burn
    from burn(2) show ?thesis
    proof (rule burn_for_performance_success)
      fix st0 reward pb pr
      assume a: "burn_engine_state w spp = Some st0"
        "burn_records st0 (m @ bcs_to_bytes p) = None"
        "table_add_u64 (player_burned st0) p (reward div 10) = Inr pb"
        "table_add_u64 (player_rewards st0) p reward = Inr pr"
        and upd: "burn_engine_state (move_exec spp w c) = (burn_engine_state w)(spp \<mapsto>
          st0\<lparr>burn_records := (burn_records st0)(m @ bcs_to_bytes p \<mapsto>
               \<lparr>br_match_id = m, br_player = p, br_burn_amount = reward div 10,
                br_reward_amount = reward, br_tier = t, br_effort_score = e,
                br_timestamp = now\<rparr>),
           total_burned := total_burned st0 + reward div 10,
           total_rewards := total_rewards st0 + reward,
           player_burned := pb, player_rewards := pr\<rparr>)"
      from a(1) assms have eq: "st0 = st" by simp
      have "burn_engine_inv (st0\<lparr>burn_records := (burn_records st0)(m @ bcs_to_bytes p \<mapsto>
               \<lparr>br_match_id = m, br_player = p, br_burn_amount = reward div 10,
                br_reward_amount = reward, br_tier = t, br_effort_score = e,
                br_timestamp = now\<rparr>),
           total_burned := total_burned st0 + reward div 10,
           total_rewards := total_rewards st0 + reward,
           player_burned := pb, player_rewards := pr\<rparr>)"
        by (rule burn_engine_inv_burn) (use a assms eq in simp_all)
      with upd show ?thesis by simp
    qed
  next
    case init
    with assms show ?thesis by simp
  qed
qed

lemma move_run_inv:
  assumes "burn_engine_state w spp = Some st" "burn_engine_inv st"
  shows "\<exists>st'. burn_engine_state (move_run spp w cs) spp = Some st' \<and> burn_engine_inv st'"
  using assms
proof (induction cs arbitrary: w st)
  case Nil
  then show ?case by (simp add: move_run_def)
next
  case (Cons c cs)
  from move_exec_inv[OF Cons.prems, of c] obtain st' where
    "burn_engine_state (move_exec spp w c) spp = Some st'" "burn_engine_inv st'" by blast
  from Cons.IH[OF this] show ?case by (simp add: move_run_def)
qed

lemmas move_init_defs = move_run_def move_exec_def reward_tiers_initialize_def
  spp_token_initialize_def deflatinary_burn_initialize_def performance_oracle_initialize_def
  empty_world_def u64_add_def INITIAL_SUPPLY_def

lemma initialized_world_eq:
  "initialized_world =
    \<lparr>tiers_state = [1 \<mapsto>
            \<lparr>ts_admin = 1,
             tier_0 = \<lparr>tc_tier = 0, tc_multiplier = 150, tc_base_reward = 5000000000, tc_min_score = 50\<rparr>,
             tier_1 = \<lparr>tc_tier = 1, tc_multiplier = 300, tc_base_reward = 15000000000, tc_min_score = 70\<rparr>,
             tier_2 = \<lparr>tc_tier = 2, tc_multiplier = 250, tc_base_reward = 10000000000, tc_min_score = 60\<rparr>,
             tier_3 = \<lparr>tc_tier = 3, tc_multiplier = 300, tc_base_reward = 20000000000, tc_min_score = 80\<rparr>,
             tier_4 = \<lparr>tc_tier = 4, tc_multiplier = 150, tc_base_reward = 3000000000, tc_min_score = 40\<rparr>,
             tier_5 = \<lparr>tc_tier = 5, tc_multiplier = 400, tc_base_reward = 25000000000, tc_min_score = 90\<rparr>,
             tier_6 = \<lparr>tc_tier = 6, tc_multiplier = 130, tc_base_reward = 4000000000, tc_min_score = 45\<rparr>,
             tier_7 = \<lparr>tc_tier = 7, tc_multiplier = 200, tc_base_reward = 12000000000, tc_min_score = 65\<rparr>\<rparr>],
      token_stats = [1 \<mapsto> \<lparr>tk_total_burned = 0, tk_circulating_supply = 100000000000000000,
                             tk_paused = False\<rparr>],
      token_balance = (\<lambda>_. 0)(1 := 100000000000000000),
      burn_engine_state = [1 \<mapsto> \<lparr>be_admin = 1, burn_records = Map.empty, total_burned = 0,
                  total_rewards = 0, player_rewards = Map.empty,
                  player_burned = Map.empty\<rparr>],
      oracle_state = [1 \<mapsto> \<lparr>or_admin = 1, oracle_addresses = [], match_store = Map.empty,
                  performance_store = Map.empty,
                  cricket_performance_store = Map.empty\<rparr>]\<rparr>"
  by (simp add: initialized_world_def move_init_defs)

lemmas move_burn_defs = burn_for_performance_def calculate_reward_def get_tier_config_def
  u64_mul_def u64_add_def u64_sub_def spp_token_burn_def spp_token_mint_def table_add_u64_def Let_def

lemma first_burn_eval:
  "burn_engine_state (move_run 1 initialized_world [Burn_for_performance 1 1000 match_M1 0 0 80]) 1
     = Some \<lparr>be_admin = 1,
        burn_records = [match_M1 @ bcs_to_bytes 1 \<mapsto>
          \<lparr>br_match_id = match_M1, br_player = 1, br_burn_amount = 600000000,
           br_reward_amount = 6000000000, br_tier = 0, br_effort_score = 80,
           br_timestamp = 1000\<rparr>],
        total_burned = 600000000, total_rewards = 6000000000,
        player_rewards = [1 \<mapsto> 6000000000], player_burned = [1 \<mapsto> 600000000]\<rparr>"
  by (simp add: move_run_def move_exec_def initialized_world_eq move_burn_defs)

text \<open>
  Claim C9. Starting from the store in which the burn engine was just initialised, after
  any sequence of transactions (the successful calls of \<open>burn_for_performance\<close> among
  them are the only ones that change the engine), the engine satisfies its invariant:
  every stored record has \<open>burn_amount = reward_amount div 10\<close>, \<open>total_burned\<close> is
  the sum of \<open>burn_amount\<close> over the stored records and the sum of the values of
  \<open>player_burned\<close>, and \<open>total_rewards\<close> is the sum of \<open>reward_amount\<close> over
  the stored records and the sum of the values of \<open>player_rewards\<close>.
\<close>

theorem burn_engine_invariant:
  assumes "burn_engine_state w0 spp =
     Some \<lparr>be_admin = a, burn_records = Map.empty, total_burned = 0, total_rewards = 0,
           player_rewards = Map.empty, player_burned = Map.empty\<rparr>"
  shows "\<exists>st. burn_engine_state (move_run spp w0 cs) spp = Some st \<and> burn_engine_inv st"
  using move_run_inv[OF assms burn_engine_inv_initial] .

theorem burn_engine_invariant_witness:
  "burn_engine_state initialized_world 1 =
     Some \<lparr>be_admin = 1, burn_records = Map.empty, total_burned = 0, total_rewards = 0,
           player_rewards = Map.empty, player_burned = Map.empty\<rparr> \<and>
   (\<exists>st. burn_engine_state
           (move_run 1 initialized_world [Burn_for_performance 1 1000 match_M1 0 0 80]) 1 = Some st \<and>
         burn_engine_inv st \<and> total_burned st = 600000000 \<and> total_rewards st = 6000000000)"
proof -
  have h: "burn_engine_state initialized_world 1 =
     Some \<lparr>be_admin = 1, burn_records = Map.empty, total_burned = 0, total_rewards = 0,
           player_rewards = Map.empty, player_burned = Map.empty\<rparr>"
    by (simp add: initialized_world_eq)
  from burn_engine_invariant[OF h, of "[Burn_for_performance 1 1000 match_M1 0 0 80]"]
  obtain st where st: "burn_engine_state
           (move_run 1 initialized_world [Burn_for_performance 1 1000 match_M1 0 0 80]) 1 = Some st"
     "burn_engine_inv st" by blast
  from st(1) have "total_burned st = 600000000 \<and> total_rewards st = 6000000000"
    unfolding first_burn_eval by auto
  with h st show ?thesis by blast
qed

section \<open>Burn idempotency\<close>

lemma burn_for_performance_stores:
  assumes "burn_for_performance spp p now m t ps e w = Inr w1"
  shows "\<exists>st r. burn_engine_state w1 spp = Some st \<and>
           burn_records st (m @ bcs_to_bytes p) = Some r \<and>
           br_match_id r = m \<and> br_player r = p \<and> br_tier r = t \<and> br_effort_score r = e"
  using assms by (rule burn_for_performance_success) simp

lemma move_once:
  assumes first: "burn_for_performance spp p now m t ps e w = Inr w1"
  shows "\<exists>st r. burn_engine_state w1 spp = Some st \<and>
           burn_records st (m @ bcs_to_bytes p) = Some r \<and>
           (\<exists>st'. burn_engine_state (move_run spp w1 cs) spp = Some st' \<and>
                  burn_records st' (m @ bcs_to_bytes p) = Some r)"
    and "burn_for_performance spp p now' m t' ps' e' (move_run spp w1 cs) =
           (if t' \<le> 7 then Inl (Abort E_ALREADY_BURNED) else Inl (Abort E_INVALID_TIER))"
    and "move_exec spp (move_run spp w1 cs) (Burn_for_performance p now' m t' ps' e') =
           move_run spp w1 cs"
proof -
  from burn_for_performance_stores[OF first] obtain st r where
    st: "burn_engine_state w1 spp = Some st" "burn_records st (m @ bcs_to_bytes p) = Some r"
    by blast
  from move_run_keeps_record[OF st, of cs] obtain st' where
    st': "burn_engine_state (move_run spp w1 cs) spp = Some st'"
      "burn_records st' (m @ bcs_to_bytes p) = Some r" by blast
  from st st' show "\<exists>st r. burn_engine_state w1 spp = Some st \<and>
           burn_records st (m @ bcs_to_bytes p) = Some r \<and>
           (\<exists>st'. burn_engine_state (move_run spp w1 cs) spp = Some st' \<and>
                  burn_records st' (m @ bcs_to_bytes p) = Some r)" by blast
  show 2: "burn_for_performance spp p now' m t' ps' e' (move_run spp w1 cs) =
           (if t' \<le> 7 then Inl (Abort E_ALREADY_BURNED) else Inl (Abort E_INVALID_TIER))"
    by (rule burn_for_performance_duplicate[OF st'])
  show "move_exec spp (move_run spp w1 cs) (Burn_for_performance p now' m t' ps' e') =
           move_run spp w1 cs"
    by (simp add: move_exec_def 2)
qed

text \<open>
  Claim C1, as amended. A successful burn for a key \<open>(matchId, participant)\<close> stores
  the record of that burn under the key. After any later transactions the record under
  the key is still that one, and every further burn attempt for the key fails and leaves
  the store as it is. In the Solidity engine the failure is \<open>BurnAlreadyExecuted\<close> for
  every authorised sender (the modifier \<open>onlyOracle\<close> rejects the others first). In the
  Move engine it is \<open>E_ALREADY_BURNED\<close> when the tier is at most 7; the tier is checked
  before the key, so a repeated attempt with a tier above 7 fails with
  \<open>E_INVALID_TIER\<close>.
\<close>

theorem burn_at_most_once:
  "(burnForPerformance K sender ts m p t e s = Inr ((b, r), s1) \<longrightarrow>
      burnTransactions (sol_run K s1 cs) (computeTxId K m p) =
        \<lparr>bt_matchId = m, bt_player = p, bt_burnAmount = b, bt_rewardAmount = r,
         bt_tier = t, bt_effortScore = e, bt_timestamp = ts, bt_executed = True\<rparr> \<and>
      burnForPerformance K sender' ts' m p t' e' (sol_run K s1 cs) =
        (if sender' = oracleContract (sol_run K s1 cs) \<or> sender' = owner (sol_run K s1 cs)
         then Inl BurnAlreadyExecuted else Inl (Require_failed ''Not authorized'')) \<and>
      sol_exec K (sol_run K s1 cs) (BurnForPerformance sender' ts' m p t' e') = sol_run K s1 cs) \<and>
   (burn_for_performance spp pl now mm tier ps eff w = Inr w1 \<longrightarrow>
      (\<exists>st rec. burn_engine_state w1 spp = Some st \<and>
         burn_records st (mm @ bcs_to_bytes pl) = Some rec \<and>
         (\<exists>st'. burn_engine_state (move_run spp w1 mcs) spp = Some st' \<and>
                burn_records st' (mm @ bcs_to_bytes pl) = Some rec)) \<and>
      burn_for_performance spp pl now' mm tier' ps' eff' (move_run spp w1 mcs) =
        (if tier' \<le> 7 then Inl (Abort E_ALREADY_BURNED) else Inl (Abort E_INVALID_TIER)) \<and>
      move_exec spp (move_run spp w1 mcs) (Burn_for_performance pl now' mm tier' ps' eff') =
        move_run spp w1 mcs)"
proof (intro conjI impI)
  assume h: "burnForPerformance K sender ts m p t e s = Inr ((b, r), s1)"
  show "burnTransactions (sol_run K s1 cs) (computeTxId K m p) =
        \<lparr>bt_matchId = m, bt_player = p, bt_burnAmount = b, bt_rewardAmount = r,
         bt_tier = t, bt_effortScore = e, bt_timestamp = ts, bt_executed = True\<rparr>"
    by (rule sol_once(1)[OF h])
  show "burnForPerformance K sender' ts' m p t' e' (sol_run K s1 cs) =
        (if sender' = oracleContract (sol_run K s1 cs) \<or> sender' = owner (sol_run K s1 cs)
         then Inl BurnAlreadyExecuted else Inl (Require_failed ''Not authorized''))"
    by (rule sol_once(2)[OF h])
  show "sol_exec K (sol_run K s1 cs) (BurnForPerformance sender' ts' m p t' e') = sol_run K s1 cs"
    by (rule sol_once(3)[OF h])
next
  assume h: "burn_for_performance spp pl now mm tier ps eff w = Inr w1"
  show "\<exists>st rec. burn_engine_state w1 spp = Some st \<and>
         burn_records st (mm @ bcs_to_bytes pl) = Some rec \<and>
         (\<exists>st'. burn_engine_state (move_run spp w1 mcs) spp = Some st' \<and>
                burn_records st' (mm @ bcs_to_bytes pl) = Some rec)"
    by (rule move_once(1)[OF h])
  show "burn_for_performance spp pl now' mm tier' ps' eff' (move_run spp w1 mcs) =
        (if tier' \<le> 7 then Inl (Abort E_ALREADY_BURNED) else Inl (Abort E_INVALID_TIER))"
    by (rule move_once(2)[OF h])
  show "move_exec spp (move_run spp w1 mcs) (Burn_for_performance pl now' mm tier' ps' eff') =
        move_run spp w1 mcs"
    by (rule move_once(3)[OF h])
qed

lemma deployed_constructor: "constructor 1 2 3 = Inr deployed"
  by (simp add: constructor_def deployed_def)

lemmas sol_burn_defs = burnForPerformance_def calculateReward_def checked_mul_def checked_add_def
  TIER_ALL_ROUNDER_def computeTxId_def Let_def constructor_burnMultipliers_def
  constructor_baseRewards_def zero_BurnTransaction_def

lemma sol_first_burn_eval:
  "burnForPerformance sample_hash 3 1000 5 9 0 80 deployed =
     Inr ((6000000000000000000, 60000000000000000000),
          snd (projr (burnForPerformance sample_hash 3 1000 5 9 0 80 deployed)))"
  by (simp add: deployed_def sol_burn_defs)

lemma sol_first_burn_auth:
  "oracleContract (sol_run sample_hash
      (snd (projr (burnForPerformance sample_hash 3 1000 5 9 0 80 deployed)))
      [UpdateTier 1 0 20 7]) = 3"
  by (simp add: deployed_def sol_burn_defs sol_run_def sol_exec_def updateTier_def)

lemma move_first_burn_eval:
  "burn_for_performance 1 1 1000 match_M1 0 0 80 initialized_world =
     Inr (projr (burn_for_performance 1 1 1000 match_M1 0 0 80 initialized_world))"
  by (simp add: initialized_world_eq move_burn_defs)

theorem burn_at_most_once_witness:
  "burnForPerformance sample_hash 3 2000 5 9 1 90
      (sol_run sample_hash
         (snd (projr (burnForPerformance sample_hash 3 1000 5 9 0 80 deployed)))
         [UpdateTier 1 0 20 7]) = Inl BurnAlreadyExecuted \<and>
   burn_for_performance 1 1 2000 match_M1 1 0 90
      (move_run 1 (projr (burn_for_performance 1 1 1000 match_M1 0 0 80 initialized_world))
         [Update_tier 1 0 200 7 50]) = Inl (Abort E_ALREADY_BURNED)"
  using burn_at_most_once[of sample_hash 3 1000 5 9 0 80 deployed
      6000000000000000000 60000000000000000000
      "snd (projr (burnForPerformance sample_hash 3 1000 5 9 0 80 deployed))"
      "[UpdateTier 1 0 20 7]" 3 2000 1 90
      1 1 1000 match_M1 0 0 80 initialized_world
      "projr (burn_for_performance 1 1 1000 match_M1 0 0 80 initialized_world)"
      "[Update_tier 1 0 200 7 50]" 2000 1 0 90]
    sol_first_burn_eval sol_first_burn_auth move_first_burn_eval
  by simp

text \<open>
  The claim as stated fails in the Move engine: after a successful burn for match \<open>M1\<close>
  and player 1, a second attempt for the same key with tier 8 aborts with
  \<open>E_INVALID_TIER\<close>, not with \<open>E_ALREADY_BURNED\<close>.
\<close>

theorem duplicate_burn_error_counterexample:
  "\<not> isl (burn_for_performance 1 1 1000 match_M1 0 0 80 initialized_world) \<and>
   burn_for_performance 1 1 2000 match_M1 8 0 80
      (projr (burn_for_performance 1 1 1000 match_M1 0 0 80 initialized_world))
     = Inl (Abort E_INVALID_TIER) \<and>
   Abort E_INVALID_TIER \<noteq> Abort E_ALREADY_BURNED"
  by (simp add: initialized_world_eq move_burn_defs E_INVALID_TIER_def E_ALREADY_BURNED_def)

section \<open>Reward and burn amounts\<close>

lemma get_tier_config_initialized:
  "tier \<le> 7 \<Longrightarrow> \<exists>mu ba. get_tier_config 1 initialized_world tier = Inr (mu, ba) \<and> ba * mu < 2 ^ 64"
  by (simp add: initialized_world_eq get_tier_config_def)

lemma calculate_reward_zero:
  assumes "get_tier_config spp w tier = Inr (mu, ba)" "ba * mu < 2 ^ 64"
  shows "calculate_reward spp w tier 0 = Inr 0"
  using assms by (simp add: calculate_reward_def u64_mul_def)

lemma calculateReward_zero:
  "tier \<le> 7 \<Longrightarrow> calculateReward s tier 0 = Inr 0"
  by (simp add: calculateReward_def TIER_ALL_ROUNDER_def checked_mul_def)

lemma deployed_tables:
  assumes "tier \<le> 7"
  shows "100 dvd baseRewards deployed tier \<and> baseRewards deployed tier \<le> 250 * 10 ^ 18 \<and>
         burnMultipliers deployed tier \<le> 40"
proof -
  from assms have "tier \<in> {0, 1, 2, 3, 4, 5, 6, 7}" by auto
  then show ?thesis
    by (auto simp: deployed_def constructor_baseRewards_def constructor_burnMultipliers_def)
qed

lemma calculateReward_deployed:
  assumes "tier \<le> 7" "effortScore \<le> 100"
  shows "calculateReward deployed tier effortScore =
           Inr (spec_reward (baseRewards deployed tier) effortScore (burnMultipliers deployed tier) 10)"
proof -
  let ?b = "baseRewards deployed tier" and ?m = "burnMultipliers deployed tier"
  from deployed_tables[OF assms(1)] have d: "100 dvd ?b" and b: "?b \<le> 250 * 10 ^ 18"
    and m: "?m \<le> 40" by simp_all
  have "?b * effortScore \<le> (250 * 10 ^ 18) * 100"
    using b assms(2) by (rule mult_le_mono)
  also have "\<dots> < (2::nat) ^ 256" by simp
  finally have o1: "?b * effortScore < 2 ^ 256" .
  have "?b * effortScore div 100 \<le> ?b * effortScore" by simp
  also have "\<dots> \<le> (250 * 10 ^ 18) * 100" using b assms(2) by (rule mult_le_mono)
  finally have "?b * effortScore div 100 * ?m \<le> ((250 * 10 ^ 18) * 100) * 40"
    using m by (rule mult_le_mono)
  also have "\<dots> < (2::nat) ^ 256" by simp
  finally have o2: "?b * effortScore div 100 * ?m < 2 ^ 256" .
  have dv: "100 dvd ?b * effortScore" using d by simp
  show ?thesis
    by (simp only: calculateReward_value[OF assms o1 o2] spec_reward_div nested_floor[OF dv])
qed

lemma calculate_reward_initialized:
  assumes "tier \<le> 7" "effortScore \<le> 100"
  shows "\<exists>mu ba. get_tier_config 1 initialized_world tier = Inr (mu, ba) \<and>
           calculate_reward 1 initialized_world tier effortScore =
             Inr (spec_reward ba effortScore mu 100)"
proof -
  have "\<exists>mu ba. get_tier_config 1 initialized_world tier = Inr (mu, ba) \<and>
          ba * mu * 100 < 2 ^ 64"
    using assms(1) by (simp add: initialized_world_eq get_tier_config_def)
  then obtain mu ba where g: "get_tier_config 1 initialized_world tier = Inr (mu, ba)"
    and o: "ba * mu * 100 < 2 ^ 64" by blast
  have "ba * mu * effortScore \<le> ba * mu * 100"
    using assms(2) by (intro mult_le_mono) simp_all
  then have o2: "ba * mu * effortScore < 2 ^ 64"
    using o by (rule le_less_trans)
  have "ba * mu \<le> ba * mu * 100" by simp
  then have o1: "ba * mu < 2 ^ 64"
    using o by (rule le_less_trans)
  from calculate_reward_spec[OF g o1 o2] g show ?thesis by blast
qed

text \<open>
  Claim C2, as amended. For a tier in \<open>[0,7]\<close> and an effort score in \<open>[0,100]\<close>,
  and when no intermediate product leaves the engine's integer type: the Move engine
  returns the specification's \<open>floor(base * effort / 100 * multiplier / 100)\<close>; the
  Solidity engine returns \<open>floor(floor(base * effort / 100) * multiplier / 10)\<close>, which
  is the specification's \<open>floor(base * effort / 100 * multiplier / 10)\<close> whenever
  \<open>base * effort\<close> is a multiple of 100. In both engines the burn amount of a
  successful burn is \<open>floor(reward / 10)\<close>. With the default tier tables, whose base
  rewards are multiples of 100, both engines return the specification's value for every
  tier and effort score. With the default tier tables an effort
  score of 0 gives reward 0 and burn 0 for every tier; and an effort score of 100 with
  base reward 250 and multiplier 4.0 (40 at scale 10, 400 at scale 100) gives reward
  1000 and burn 100.
\<close>

theorem reward_and_burn_amounts:
  assumes "tier \<le> 7" "effortScore \<le> 100"
  shows
   "(baseRewards s tier * effortScore < 2 ^ 256 \<and>
     baseRewards s tier * effortScore div 100 * burnMultipliers s tier < 2 ^ 256 \<longrightarrow>
       calculateReward s tier effortScore =
         Inr (baseRewards s tier * effortScore div 100 * burnMultipliers s tier div 10) \<and>
       (100 dvd baseRewards s tier * effortScore \<longrightarrow>
          calculateReward s tier effortScore =
            Inr (spec_reward (baseRewards s tier) effortScore (burnMultipliers s tier) 10))) \<and>
    (get_tier_config spp w tier = Inr (multiplier, base_reward) \<and>
     base_reward * multiplier < 2 ^ 64 \<and> base_reward * multiplier * effortScore < 2 ^ 64 \<longrightarrow>
       calculate_reward spp w tier effortScore =
         Inr (spec_reward base_reward effortScore multiplier 100)) \<and>
    (burnForPerformance K sender ts m p tier effortScore s = Inr ((burnAmount, rewardAmount), s') \<longrightarrow>
       calculateReward s tier effortScore = Inr rewardAmount \<and>
       burnAmount = spec_burn rewardAmount) \<and>
    (burn_for_performance spp pl now mm tier ps effortScore w = Inr w' \<longrightarrow>
       (\<exists>st r. burn_engine_state w' spp = Some st \<and>
          burn_records st (mm @ bcs_to_bytes pl) = Some r \<and>
          calculate_reward spp w tier effortScore = Inr (br_reward_amount r) \<and>
          br_burn_amount r = spec_burn (br_reward_amount r))) \<and>
    calculateReward deployed tier effortScore =
      Inr (spec_reward (baseRewards deployed tier) effortScore (burnMultipliers deployed tier) 10) \<and>
    (\<exists>mu ba. get_tier_config 1 initialized_world tier = Inr (mu, ba) \<and>
       calculate_reward 1 initialized_world tier effortScore =
         Inr (spec_reward ba effortScore mu 100)) \<and>
    calculateReward deployed tier 0 = Inr 0 \<and>
    calculate_reward 1 initialized_world tier 0 = Inr 0 \<and>
    spec_burn 0 = 0 \<and>
    (baseRewards s tier = 250 \<and> burnMultipliers s tier = 40 \<longrightarrow>
       calculateReward s tier 100 = Inr 1000) \<and>
    (get_tier_config spp w tier = Inr (400, 250) \<longrightarrow>
       calculate_reward spp w tier 100 = Inr 1000) \<and>
    spec_burn 1000 = 100"
proof (intro conjI impI)
  assume h: "baseRewards s tier * effortScore < 2 ^ 256 \<and>
     baseRewards s tier * effortScore div 100 * burnMultipliers s tier < 2 ^ 256"
  then show v: "calculateReward s tier effortScore =
         Inr (baseRewards s tier * effortScore div 100 * burnMultipliers s tier div 10)"
    using calculateReward_value[OF assms, of s] by blast
  assume "100 dvd baseRewards s tier * effortScore"
  then show "calculateReward s tier effortScore =
            Inr (spec_reward (baseRewards s tier) effortScore (burnMultipliers s tier) 10)"
    by (simp only: v spec_reward_div nested_floor)
next
  assume "get_tier_config spp w tier = Inr (multiplier, base_reward) \<and>
     base_reward * multiplier < 2 ^ 64 \<and> base_reward * multiplier * effortScore < 2 ^ 64"
  then show "calculate_reward spp w tier effortScore =
         Inr (spec_reward base_reward effortScore multiplier 100)"
    using calculate_reward_spec by blast
next
  assume h: "burnForPerformance K sender ts m p tier effortScore s = Inr ((burnAmount, rewardAmount), s')"
  from burnForPerformance_amounts[OF h]
  show "calculateReward s tier effortScore = Inr rewardAmount"
    and "burnAmount = spec_burn rewardAmount"
    by (simp_all add: spec_burn_div)
next
  assume h: "burn_for_performance spp pl now mm tier ps effortScore w = Inr w'"
  from burn_for_performance_amounts[OF h]
  show "\<exists>st r. burn_engine_state w' spp = Some st \<and>
          burn_records st (mm @ bcs_to_bytes pl) = Some r \<and>
          calculate_reward spp w tier effortScore = Inr (br_reward_amount r) \<and>
          br_burn_amount r = spec_burn (br_reward_amount r)"
    by (simp add: spec_burn_div)
next
  show "calculateReward deployed tier effortScore =
      Inr (spec_reward (baseRewards deployed tier) effortScore (burnMultipliers deployed tier) 10)"
    by (rule calculateReward_deployed[OF assms])
  show "\<exists>mu ba. get_tier_config 1 initialized_world tier = Inr (mu, ba) \<and>
       calculate_reward 1 initialized_world tier effortScore =
         Inr (spec_reward ba effortScore mu 100)"
    by (rule calculate_reward_initialized[OF assms])
  show "calculateReward deployed tier 0 = Inr 0"
    by (rule calculateReward_zero[OF assms(1)])
  show "calculate_reward 1 initialized_world tier 0 = Inr 0"
    using get_tier_config_initialized[OF assms(1)] calculate_reward_zero by blast
  show "spec_burn 0 = 0" by (simp add: spec_burn_div)
  show "spec_burn 1000 = 100" by (simp add: spec_burn_div)
next
  assume "baseRewards s tier = 250 \<and> burnMultipliers s tier = 40"
  then show "calculateReward s tier 100 = Inr 1000"
    using assms(1) by (simp add: calculateReward_def TIER_ALL_ROUNDER_def checked_mul_def)
next
  assume "get_tier_config spp w tier = Inr (400, 250)"
  then show "calculate_reward spp w tier 100 = Inr 1000"
    by (simp add: calculate_reward_def u64_mul_def)
qed


lemma deployed_tier5: "baseRewards deployed 5 = 250 * 10 ^ 18" "burnMultipliers deployed 5 = 40"
  by (simp_all add: deployed_def constructor_baseRewards_def constructor_burnMultipliers_def)

lemma initialized_tier5: "get_tier_config 1 initialized_world 5 = Inr (400, 25000000000)"
  by (simp add: initialized_world_eq get_tier_config_def)

theorem reward_and_burn_amounts_witness:
  "calculateReward deployed 5 100 = Inr (spec_reward (250 * 10 ^ 18) 100 40 10) \<and>
   spec_reward (250 * 10 ^ 18) 100 40 10 = 1000 * 10 ^ 18 \<and>
   calculate_reward 1 initialized_world 5 100 = Inr (spec_reward 25000000000 100 400 100) \<and>
   spec_reward 25000000000 100 400 100 = 100000000000 \<and>
   calculateReward deployed 5 0 = Inr 0 \<and>
   calculate_reward 1 initialized_world 5 0 = Inr 0"
proof -
  have t: "(5::nat) \<le> 7" "(100::nat) \<le> 100" by simp_all
  note th = reward_and_burn_amounts[OF t, of deployed 1 initialized_world 400 25000000000]
  have a: "baseRewards deployed 5 * 100 < 2 ^ 256 \<and>
     baseRewards deployed 5 * 100 div 100 * burnMultipliers deployed 5 < 2 ^ 256"
    by (simp add: deployed_tier5)
  have d: "100 dvd baseRewards deployed 5 * 100" by simp
  have c: "get_tier_config 1 initialized_world 5 = Inr (400, 25000000000) \<and>
     (25000000000::nat) * 400 < 2 ^ 64 \<and> (25000000000::nat) * 400 * 100 < 2 ^ 64"
    by (simp add: initialized_tier5)
  from th a d have 1: "calculateReward deployed 5 100 =
      Inr (spec_reward (baseRewards deployed 5) 100 (burnMultipliers deployed 5) 10)" by blast
  from th c have 2: "calculate_reward 1 initialized_world 5 100 =
      Inr (spec_reward 25000000000 100 400 100)" by blast
  from th have 3: "calculateReward deployed 5 0 = Inr 0"
    "calculate_reward 1 initialized_world 5 0 = Inr 0" by blast+
  have 4: "spec_reward (250 * 10 ^ 18) 100 40 10 = 1000 * 10 ^ 18"
    "spec_reward 25000000000 100 400 100 = 100000000000"
    by (simp_all add: spec_reward_div)
  from 1 2 3 4 show ?thesis by (simp add: deployed_tier5)
qed

text \<open>
  The claim as stated fails in the Solidity engine, which rounds down twice: with base
  reward 150 and multiplier 1.5 for tier 0, an effort score of 85 gives
  \<open>floor(127.5) * 15 / 10\<close>, that is 190, where the formula gives
  \<open>floor(191.25) = 191\<close>, the value the Move engine returns for the same
  configuration.
\<close>

theorem reward_formula_counterexample:
  "calculateReward (sol_exec sample_hash deployed (UpdateTier 1 0 15 150)) 0 85 = Inr 190 \<and>
   spec_reward 150 85 15 10 = 191 \<and>
   calculate_reward 1 (move_exec 1 initialized_world (Update_tier 1 0 150 150 50)) 0 85 = Inr 191 \<and>
   spec_reward 150 85 150 100 = 191"
  by (simp add: sol_exec_def updateTier_def deployed_def calculateReward_def checked_mul_def
      TIER_ALL_ROUNDER_def spec_reward_div move_exec_def update_tier_def initialized_world_eq
      calculate_reward_def get_tier_config_def u64_mul_def)

text \<open>
  Claim C3, as amended. For a tier in \<open>[0,7]\<close>, an effort score in \<open>[0,100]\<close> and a
  common tier configuration (the same base reward, a \<open>u64\<close> value, and the same
  multiplier, at scale 10 in the Solidity engine and at scale 100 in the Move engine),
  the two engines return the same reward whenever \<open>base * effort\<close> is a multiple of
  100 and the Move engine's products stay within \<open>u64\<close>.
\<close>

theorem reward_engines_agree:
  assumes "tier \<le> 7" "effortScore \<le> 100"
    and "get_tier_config spp w tier = Inr (10 * burnMultipliers s tier, baseRewards s tier)"
    and "100 dvd baseRewards s tier * effortScore"
    and "baseRewards s tier < 2 ^ 64"
    and "baseRewards s tier * (10 * burnMultipliers s tier) < 2 ^ 64"
    and "baseRewards s tier * (10 * burnMultipliers s tier) * effortScore < 2 ^ 64"
  shows "\<exists>r. calculateReward s tier effortScore = Inr r \<and>
             calculate_reward spp w tier effortScore = Inr r"
proof -
  let ?b = "baseRewards s tier" and ?m = "burnMultipliers s tier"
  have "?b * effortScore \<le> ?b * 100" using assms(2) by simp
  also have "\<dots> < 2 ^ 64 * 100" using assms(5) by simp
  also have "\<dots> < (2::nat) ^ 256" by simp
  finally have o1: "?b * effortScore < 2 ^ 256" .
  have "?b * effortScore div 100 \<le> ?b * 100 div 100"
    using assms(2) by (intro div_le_mono) simp
  then have "?b * effortScore div 100 * ?m \<le> ?b * ?m" by simp
  also have "\<dots> \<le> ?b * (10 * ?m)" by simp
  also have "\<dots> < 2 ^ 64" by (rule assms(6))
  also have "\<dots> < (2::nat) ^ 256" by simp
  finally have o2: "?b * effortScore div 100 * ?m < 2 ^ 256" .
  have sol: "calculateReward s tier effortScore = Inr (?b * effortScore div 100 * ?m div 10)"
    by (rule calculateReward_value[OF assms(1,2) o1 o2])
  have mv: "calculate_reward spp w tier effortScore = Inr (?b * (10 * ?m) * effortScore div 10000)"
    by (rule calculate_reward_value[OF assms(3,6,7)])
  define X where "X = ?b * effortScore * ?m"
  have e: "?b * (10 * ?m) * effortScore = 10 * X" by (simp add: X_def mult_ac)
  have "?b * (10 * ?m) * effortScore div 10000 = (10 * X) div 10000" by (simp only: e)
  also have "\<dots> = X div 1000" by simp
  also have "\<dots> = ?b * effortScore div 100 * ?m div 10"
    using nested_floor[OF assms(4), of ?m] by (simp add: X_def)
  finally show ?thesis using sol mv by simp
qed

theorem reward_engines_agree_witness:
  "(\<exists>r. calculateReward (sol_exec sample_hash deployed (UpdateTier 1 5 40 25000000000)) 5 85 = Inr r \<and>
        calculate_reward 1 initialized_world 5 85 = Inr r) \<and>
   calculate_reward 1 initialized_world 5 85 = Inr 85000000000"
proof -
  let ?s = "sol_exec sample_hash deployed (UpdateTier 1 5 40 25000000000)"
  have s: "baseRewards ?s 5 = 25000000000" "burnMultipliers ?s 5 = 40"
    by (simp_all add: sol_exec_def updateTier_def deployed_def TIER_ALL_ROUNDER_def)
  have "\<exists>r. calculateReward ?s 5 85 = Inr r \<and> calculate_reward 1 initialized_world 5 85 = Inr r"
    by (rule reward_engines_agree) (simp_all add: s initialized_tier5)
  moreover have "calculate_reward 1 initialized_world 5 85 = Inr 85000000000"
    by (simp add: calculate_reward_def initialized_tier5 u64_mul_def)
  ultimately show ?thesis by blast
qed

text \<open>
  The claim as stated fails: with base reward 1 and multiplier 2.0 for tier 7 in both
  engines, an effort score of 50 gives reward 0 in the Solidity engine and reward 1 in
  the Move engine.
\<close>

theorem reward_engines_differ_counterexample:
  "calculateReward (sol_exec sample_hash deployed (UpdateTier 1 7 20 1)) 7 50 = Inr 0 \<and>
   calculate_reward 1 (move_exec 1 initialized_world (Update_tier 1 7 200 1 65)) 7 50 = Inr 1"
  by (simp add: sol_exec_def updateTier_def deployed_def calculateReward_def checked_mul_def
      TIER_ALL_ROUNDER_def move_exec_def update_tier_def initialized_world_eq
      calculate_reward_def get_tier_config_def u64_mul_def)

section \<open>Parameter validation and the finalization guard\<close>

lemma calculateReward_rejects:
  "tier > 7 \<Longrightarrow> calculateReward s tier effortScore = Inl InvalidTier"
  "tier \<le> 7 \<Longrightarrow> effortScore > 100 \<Longrightarrow> calculateReward s tier effortScore = Inl InvalidEffortScore"
  by (simp_all add: calculateReward_def TIER_ALL_ROUNDER_def)

lemma burnForPerformance_rejects:
  assumes "tier > 7 \<or> effortScore > 100"
  shows "isl (burnForPerformance K sender ts m p tier effortScore s)"
  using assms
  by (auto simp: burnForPerformance_def calculateReward_def TIER_ALL_ROUNDER_def Let_def)

lemma burn_for_performance_rejects_tier:
  assumes "tier > 7" "burn_engine_state w spp = Some st"
  shows "burn_for_performance spp p now m tier ps e w = Inl (Abort E_INVALID_TIER)"
  using assms by (simp add: burn_for_performance_def)

text \<open>
  Claim C6. Both engines are to reject a tier above 7 and an effort score above 100
  before any state changes. The Solidity engine does (lemmas above), and the Move engine
  rejects a tier above 7. The Move engine has no check of the effort score: on the
  initialised package, \<open>burn_for_performance\<close> with tier 0 and effort score 200 goes
  through, computes the reward 150 SPP (three times the base reward of the tier, twice
  what an effort of 100 gives), and writes the record and the totals; the Solidity
  \<open>calculateReward\<close> reverts with \<open>InvalidEffortScore\<close> on the same arguments.
\<close>

theorem move_accepts_effort_above_100:
  "calculateReward deployed 0 200 = Inl InvalidEffortScore \<and>
   calculate_reward 1 initialized_world 0 200 = Inr 15000000000 \<and>
   burn_engine_state
     (move_exec 1 initialized_world (Burn_for_performance 1 1000 match_M1 0 0 200)) 1 =
     Some \<lparr>be_admin = 1,
        burn_records = [match_M1 @ bcs_to_bytes 1 \<mapsto>
          \<lparr>br_match_id = match_M1, br_player = 1, br_burn_amount = 1500000000,
           br_reward_amount = 15000000000, br_tier = 0, br_effort_score = 200,
           br_timestamp = 1000\<rparr>],
        total_burned = 1500000000, total_rewards = 15000000000,
        player_rewards = [1 \<mapsto> 15000000000], player_burned = [1 \<mapsto> 1500000000]\<rparr>"
  by (simp add: deployed_def calculateReward_def TIER_ALL_ROUNDER_def
      move_exec_def initialized_world_eq move_burn_defs)

lemma finalized_world_oracle:
  "oracle_state finalized_world 1 =
     Some \<lparr>or_admin = 1, oracle_addresses = [],
        match_store = [match_M1 \<mapsto>
           \<lparr>mt_match_id = match_M1, mt_sport = 0, mt_status = STATUS_FINALIZED, mt_winner = 1,
            mt_data_hash = [171, 205], mt_player_count = 0, mt_registered_at = 100,
            mt_finalized_at = 200\<rparr>],
        performance_store = Map.empty,
        cricket_performance_store = Map.empty\<rparr>"
  by (simp add: finalized_world_def move_run_def move_exec_def initialized_world_eq
      register_match_def finalize_match_def Let_def STATUS_FINALIZED_def STATUS_REGISTERED_def)

text \<open>
  Claim C4. Recording a performance for a finalized match is to fail and leave the
  performance store unchanged. In the Move oracle it succeeds: in the store where match
  \<open>M1\<close> has status \<open>FINALIZED\<close> and no performance is stored for player 7,
  \<open>record_performance\<close> returns normally and the store then holds the new record;
  \<open>record_cricket_performance\<close> returns normally as well.
\<close>

theorem record_performance_after_finalization:
  "map_option (\<lambda>st. map_option mt_status (match_store st match_M1)) (oracle_state finalized_world 1)
     = Some (Some STATUS_FINALIZED) \<and>
   map_option (\<lambda>st. performance_store st (match_M1 @ bcs_to_bytes 7)) (oracle_state finalized_world 1)
     = Some None \<and>
   \<not> isl (record_performance 1 1 300 match_M1 7 50 80 1 finalized_world) \<and>
   map_option (\<lambda>st. performance_store st (match_M1 @ bcs_to_bytes 7))
     (oracle_state (projr (record_performance 1 1 300 match_M1 7 50 80 1 finalized_world)) 1)
     = Some (Some \<lparr>pf_match_id = match_M1, pf_player = 7, pf_performance_score = 50,
                    pf_effort_score = 80, pf_reward_tier = 1, pf_timestamp = 300,
                    pf_verified = True\<rparr>) \<and>
   \<not> isl (record_cricket_performance 1 1 300 match_M1 7 100 60 0 0 0 0 finalized_world)"
  by (simp add: finalized_world_oracle record_performance_def record_cricket_performance_def Let_def)

lemma record_performance_ignores_status:
  assumes "oracle_state w spp = Some st"
    and "a = or_admin st \<or> a \<in> set (oracle_addresses st)"
    and "match_store st m = Some md"
  shows "record_performance spp a now m p ps es rt w =
     Inr (w\<lparr>oracle_state := (oracle_state w)(spp \<mapsto>
            st\<lparr>performance_store := (performance_store st)(m @ bcs_to_bytes p \<mapsto>
               \<lparr>pf_match_id = m, pf_player = p, pf_performance_score = ps,
                pf_effort_score = es, pf_reward_tier = rt, pf_timestamp = now,
                pf_verified = True\<rparr>)\<rparr>)\<rparr>)"
  using assms by (simp add: record_performance_def Let_def)

section \<open>Properties of the chain registry\<close>

lemma map_of_map_set: "map_of (map_set m k v) k' = (if k' = k then Some v else map_of m k')"
  by (induction m) auto

lemma first_healthy_Inr:
  "first_healthy m = Inr a \<Longrightarrow> \<exists>k e. (k, e) \<in> set m \<and> isHealthy (status e) \<and> adapter e = a"
proof (induction m)
  case Nil
  then show ?case by simp
next
  case (Cons x m)
  obtain k e where x: "x = (k, e)" by (cases x)
  show ?case
  proof (cases "isHealthy (status e)")
    case True
    with Cons.prems x have "adapter e = a" by simp
    with True x show ?thesis by auto
  next
    case False
    with Cons.prems x have "first_healthy m = Inr a" by simp
    from Cons.IH[OF this] show ?thesis by auto
  qed
qed

lemma first_healthy_Inl:
  "first_healthy m = Inl err \<Longrightarrow> err = No_healthy_chains_available \<and> (\<forall>(k, e) \<in> set m. \<not> isHealthy (status e))"
  by (induction m) (auto split: if_splits)

lemma getHealthyAdapter_Inr:
  assumes "getHealthyAdapter r = Inr a"
  shows "\<exists>k e. (k, e) \<in> set (chains r) \<and> isHealthy (status e) \<and> adapter e = a"
proof (cases "\<exists>pc primary. primaryChain (config r) = Some pc \<and> map_of (chains r) pc = Some primary
                \<and> isHealthy (status primary)")
  case True
  then obtain pc primary where p: "primaryChain (config r) = Some pc"
    "map_of (chains r) pc = Some primary" "isHealthy (status primary)" by blast
  with assms have "adapter primary = a" by (simp add: getHealthyAdapter_def)
  moreover from p(2) have "(pc, primary) \<in> set (chains r)" by (rule map_of_SomeD)
  ultimately show ?thesis using p(3) by blast
next
  case False
  with assms have "first_healthy (chains r) = Inr a"
    by (auto simp: getHealthyAdapter_def split: option.splits if_splits)
  then show ?thesis by (rule first_healthy_Inr)
qed

lemma getHealthyAdapter_Inl:
  assumes "getHealthyAdapter r = Inl err"
  shows "err = No_healthy_chains_available \<and> (\<forall>(k, e) \<in> set (chains r). \<not> isHealthy (status e))"
proof -
  from assms have "first_healthy (chains r) = Inl err"
    by (auto simp: getHealthyAdapter_def split: option.splits if_splits)
  then show ?thesis by (rule first_healthy_Inl)
qed

text \<open>
  Claim C7, as amended. For a registered chain whose status is unhealthy: when failover
  is enabled, \<open>getAdapter\<close> is \<open>getHealthyAdapter\<close>, which returns the adapter of a
  healthy entry if there is one and otherwise fails with "No healthy chains available";
  when failover is not enabled, \<open>getAdapter\<close> returns the adapter of the unhealthy
  chain itself, without an error.
\<close>

theorem getAdapter_unhealthy:
  assumes "map_of (chains r) ct = Some entry" "\<not> isHealthy (status entry)"
  shows "(enableFailover (config r) = Some True \<longrightarrow>
            getAdapter r ct = getHealthyAdapter r \<and>
            (\<forall>a. getHealthyAdapter r = Inr a \<longrightarrow>
               (\<exists>k e. (k, e) \<in> set (chains r) \<and> isHealthy (status e) \<and> adapter e = a)) \<and>
            (\<forall>err. getHealthyAdapter r = Inl err \<longrightarrow>
               err = No_healthy_chains_available \<and>
               (\<forall>(k, e) \<in> set (chains r). \<not> isHealthy (status e)))) \<and>
         (enableFailover (config r) \<noteq> Some True \<longrightarrow> getAdapter r ct = Inr (adapter entry))"
  using assms getHealthyAdapter_Inr[of r] getHealthyAdapter_Inl[of r]
  by (auto simp: getAdapter_def)

lemmas registry_defs = registry_run_def new_registry_def default_config_def registerChain_def
  checkChainHealth_def probe_status_def probe_result_def maxFailures_or_3_def configure_def
  unregisterChain_def Let_def

lemma failed_over_registry_eq:
  "failed_over_registry = \<lparr>chains =
    [(ARBITRUM, \<lparr>adapter = ARBITRUM, status = \<lparr>chainType = ARBITRUM, isHealthy = False,
         lastHealthCheck = 180, failureCount = 3, lastError = None\<rparr>\<rparr>),
     (BNB, \<lparr>adapter = BNB, status = \<lparr>chainType = BNB, isHealthy = True,
         lastHealthCheck = 0, failureCount = 0, lastError = None\<rparr>\<rparr>)],
    config = default_config\<rparr>"
  by (simp add: failed_over_registry_def registry_defs)

theorem getAdapter_unhealthy_witness:
  "getAdapter failed_over_registry ARBITRUM = getHealthyAdapter failed_over_registry \<and>
   getHealthyAdapter failed_over_registry = Inr BNB \<and>
   getAdapter (configure failover_off failed_over_registry) ARBITRUM = Inr ARBITRUM"
proof -
  let ?e = "\<lparr>adapter = ARBITRUM, status = \<lparr>chainType = ARBITRUM, isHealthy = False,
         lastHealthCheck = 180, failureCount = 3, lastError = None\<rparr>\<rparr>"
  have a: "map_of (chains failed_over_registry) ARBITRUM = Some ?e"
    "map_of (chains (configure failover_off failed_over_registry)) ARBITRUM = Some ?e"
    by (simp_all add: failed_over_registry_eq configure_def)
  have b: "\<not> isHealthy (status ?e)" by simp
  have c: "enableFailover (config failed_over_registry) = Some True"
    "enableFailover (config (configure failover_off failed_over_registry)) \<noteq> Some True"
    by (simp_all add: failed_over_registry_eq configure_def default_config_def failover_off_def)
  have d: "getHealthyAdapter failed_over_registry = Inr BNB"
    by (simp add: failed_over_registry_eq getHealthyAdapter_def default_config_def)
  from getAdapter_unhealthy[OF a(1) b] c(1)
  have 1: "getAdapter failed_over_registry ARBITRUM = getHealthyAdapter failed_over_registry"
    by blast
  from getAdapter_unhealthy[OF a(2) b] c(2)
  have 2: "getAdapter (configure failover_off failed_over_registry) ARBITRUM = Inr (adapter ?e)"
    by blast
  from 1 2 d show ?thesis by simp
qed

text \<open>
  The claim as stated fails: with failover disabled and Arbitrum unhealthy after three
  failed probes, \<open>getAdapter\<close> returns the Arbitrum adapter instead of failing.
\<close>

theorem getAdapter_failover_disabled_counterexample:
  "getChainStatus (configure failover_off failed_over_registry) ARBITRUM =
     Inr \<lparr>chainType = ARBITRUM, isHealthy = False, lastHealthCheck = 180, failureCount = 3,
          lastError = None\<rparr> \<and>
   enableFailover (config (configure failover_off failed_over_registry)) = Some False \<and>
   getAdapter (configure failover_off failed_over_registry) ARBITRUM = Inr ARBITRUM"
  by (simp add: failed_over_registry_eq configure_def failover_off_def getChainStatus_def
      getAdapter_def default_config_def)

lemma filter_map_set_same:
  "filter (\<lambda>(k, e). k \<noteq> A) (map_set m A v) = filter (\<lambda>(k, e). k \<noteq> A) m"
  by (induction m) auto

lemma map_fst_map_set:
  "map_of m k = Some e \<Longrightarrow> map fst (map_set m k v) = map fst m"
  by (induction m) (auto split: if_splits)

lemma first_healthy_skip:
  assumes "distinct (map fst m)" "map_of m A = Some e" "\<not> isHealthy (status e)"
  shows "first_healthy m = first_healthy (filter (\<lambda>(k, e). k \<noteq> A) m)"
  using assms
proof (induction m)
  case Nil
  then show ?case by simp
next
  case (Cons x m)
  obtain k e' where x: "x = (k, e')" by (cases x)
  show ?case
  proof (cases "k = A")
    case True
    with Cons.prems x have e: "e' = e" by simp
    from True Cons.prems(1) x have "A \<notin> fst ` set m" by simp
    then have "filter (\<lambda>(k, e). k \<noteq> A) m = m"
      by (intro filter_True) (auto simp: image_iff)
    with True x e Cons.prems(3) show ?thesis by simp
  next
    case False
    with Cons.prems x have "map_of m A = Some e" "distinct (map fst m)" by simp_all
    from Cons.IH[OF this(2) this(1) Cons.prems(3)] False x show ?thesis by simp
  qed
qed

lemma check_step:
  assumes "map_of (chains r) A = Some e"
  shows "registry_exec r (CheckChainHealth A p t) =
           r\<lparr>chains := map_set (chains r) A (e\<lparr>status := probe_status (config r) p t (status e)\<rparr>)\<rparr>"
  using assms by (simp add: checkChainHealth_def Let_def)

lemma probe_fail_status:
  assumes "probe_result p = False"
  shows "failureCount (probe_status c p t st) = failureCount st + 1"
    and "isHealthy (probe_status c p t st) =
           (isHealthy st \<and> failureCount st + 1 < maxFailures_or_3 c)"
  using assms
  by (auto simp: probe_status_def probe_result_def Let_def split: probe.splits bool.splits)

lemma probe_ok_status:
  "failureCount (probe_status c (Resolves True) t st) = 0"
  "isHealthy (probe_status c (Resolves True) t st)"
  by (simp_all add: probe_status_def)

text \<open>The registry after a probe of a registered chain.\<close>

lemma check_step_facts:
  assumes reg: "map_of (chains r) A = Some e" and d: "distinct (map fst (chains r))"
  shows "map_of (chains (registry_exec r (CheckChainHealth A p t))) A =
           Some (e\<lparr>status := probe_status (config r) p t (status e)\<rparr>)"
    and "config (registry_exec r (CheckChainHealth A p t)) = config r"
    and "distinct (map fst (chains (registry_exec r (CheckChainHealth A p t))))"
    and "filter (\<lambda>(k, e). k \<noteq> A) (chains (registry_exec r (CheckChainHealth A p t))) =
           filter (\<lambda>(k, e). k \<noteq> A) (chains r)"
  unfolding check_step[OF reg]
  using d by (simp_all add: map_of_map_set map_fst_map_set[OF reg] filter_map_set_same)

lemma getHealthyAdapter_primary_down:
  assumes "primaryChain (config r) = Some A" "map_of (chains r) A = Some e"
    "\<not> isHealthy (status e)" "distinct (map fst (chains r))"
  shows "getHealthyAdapter r = first_healthy (filter (\<lambda>(k, e). k \<noteq> A) (chains r))"
  using assms first_healthy_skip[OF assms(4,2,3)] by (simp add: getHealthyAdapter_def)

lemma getHealthyAdapter_primary_up:
  assumes "primaryChain (config r) = Some A" "map_of (chains r) A = Some e"
    "isHealthy (status e)"
  shows "getHealthyAdapter r = Inr (adapter e)"
  using assms by (simp add: getHealthyAdapter_def)

text \<open>
  Claim C8, as amended. Let \<open>A\<close> be the configured primary chain, registered, healthy
  and with no recorded failure, under a failure threshold of 3; and let \<open>b\<close> be the
  adapter of the first healthy entry, in registration order, among the other chains.
  After three failed probes of \<open>A\<close> in a row, \<open>A\<close> is unhealthy with failure count 3
  and \<open>getHealthyAdapter\<close> returns \<open>b\<close>. One successful probe of \<open>A\<close> then resets
  its failure count to 0 and at once sets its health flag back to healthy, so that
  \<open>getHealthyAdapter\<close> returns the adapter of \<open>A\<close> again.
\<close>

theorem failover_and_recovery:
  assumes "distinct (map fst (chains r))"
    and "map_of (chains r) A = Some eA" "isHealthy (status eA)" "failureCount (status eA) = 0"
    and "maxFailures_or_3 (config r) = 3"
    and "primaryChain (config r) = Some A"
    and "first_healthy (filter (\<lambda>(k, e). k \<noteq> A) (chains r)) = Inr b"
    and "probe_result p1 = False" "probe_result p2 = False" "probe_result p3 = False"
  shows
    "let r3 = registry_run r [CheckChainHealth A p1 t1, CheckChainHealth A p2 t2,
                               CheckChainHealth A p3 t3];
         r4 = registry_exec r3 (CheckChainHealth A (Resolves True) t4)
     in (\<exists>st. getChainStatus r3 A = Inr st \<and> \<not> isHealthy st \<and> failureCount st = 3) \<and>
        getHealthyAdapter r3 = Inr b \<and>
        (\<exists>st. getChainStatus r4 A = Inr st \<and> isHealthy st \<and> failureCount st = 0) \<and>
        getHealthyAdapter r4 = Inr (adapter eA)"
proof -
  define r1 where "r1 = registry_exec r (CheckChainHealth A p1 t1)"
  define r2 where "r2 = registry_exec r1 (CheckChainHealth A p2 t2)"
  define r3 where "r3 = registry_exec r2 (CheckChainHealth A p3 t3)"
  define r4 where "r4 = registry_exec r3 (CheckChainHealth A (Resolves True) t4)"
  define e1 where "e1 = eA\<lparr>status := probe_status (config r) p1 t1 (status eA)\<rparr>"
  define e2 where "e2 = e1\<lparr>status := probe_status (config r) p2 t2 (status e1)\<rparr>"
  define e3 where "e3 = e2\<lparr>status := probe_status (config r) p3 t3 (status e2)\<rparr>"
  define e4 where "e4 = e3\<lparr>status := probe_status (config r) (Resolves True) t4 (status e3)\<rparr>"
  note f1 = check_step_facts[OF assms(2,1), of p1 t1, folded r1_def e1_def]
  note f2 = check_step_facts[OF f1(1,3), of p2 t2, folded r2_def, unfolded f1(2), folded e2_def]
  note f3 = check_step_facts[OF f2(1,3), of p3 t3, folded r3_def, unfolded f2(2) f1(2), folded e3_def]
  note f4 = check_step_facts[OF f3(1,3), of "Resolves True" t4, folded r4_def,
      unfolded f3(2) f2(2) f1(2), folded e4_def]
  have s1: "failureCount (status e1) = 1" "isHealthy (status e1)"
    using assms(3,4,5,8) by (simp_all add: e1_def probe_fail_status)
  have s2: "failureCount (status e2) = 2" "isHealthy (status e2)"
    using s1 assms(5,9) by (simp_all add: e2_def probe_fail_status)
  have s3: "failureCount (status e3) = 3" "\<not> isHealthy (status e3)"
    using s2 assms(5,10) by (simp_all add: e3_def probe_fail_status)
  have s4: "failureCount (status e4) = 0" "isHealthy (status e4)"
    by (simp_all add: e4_def probe_ok_status)
  have ad: "adapter e4 = adapter eA"
    by (simp add: e4_def e3_def e2_def e1_def)
  have c3: "primaryChain (config r3) = Some A" "primaryChain (config r4) = Some A"
    using assms(6) by (simp_all add: f4(2) f3(2) f2(2) f1(2))
  have run: "registry_run r [CheckChainHealth A p1 t1, CheckChainHealth A p2 t2,
                               CheckChainHealth A p3 t3] = r3"
    by (simp add: registry_run_def r1_def r2_def r3_def)
  have g1: "\<exists>st. getChainStatus r3 A = Inr st \<and> \<not> isHealthy st \<and> failureCount st = 3"
    using s3 by (simp add: getChainStatus_def f3(1))
  have "getHealthyAdapter r3 = first_healthy (filter (\<lambda>(k, e). k \<noteq> A) (chains r3))"
    by (rule getHealthyAdapter_primary_down[OF c3(1) f3(1) s3(2) f3(3)])
  then have g2: "getHealthyAdapter r3 = Inr b"
    by (simp add: f3(4) f2(4) f1(4) assms(7))
  have g3: "\<exists>st. getChainStatus r4 A = Inr st \<and> isHealthy st \<and> failureCount st = 0"
    using s4 by (simp add: getChainStatus_def f4(1))
  have g4: "getHealthyAdapter r4 = Inr (adapter eA)"
    using getHealthyAdapter_primary_up[OF c3(2) f4(1) s4(2)] by (simp add: ad)
  from g1 g2 g3 g4 show ?thesis
    unfolding Let_def run r4_def[symmetric] by blast
qed


theorem failover_and_recovery_witness:
  "getHealthyAdapter failed_over_registry = Inr BNB \<and>
   (\<exists>st. getChainStatus failed_over_registry ARBITRUM = Inr st \<and> \<not> isHealthy st \<and>
         failureCount st = 3) \<and>
   (\<exists>st. getChainStatus
           (registry_exec failed_over_registry (CheckChainHealth ARBITRUM (Resolves True) 240))
           ARBITRUM = Inr st \<and> isHealthy st \<and> failureCount st = 0) \<and>
   getHealthyAdapter
     (registry_exec failed_over_registry (CheckChainHealth ARBITRUM (Resolves True) 240))
     = Inr ARBITRUM"
proof -
  let ?r = "registry_run new_registry [RegisterChain ARBITRUM None 0, RegisterChain BNB None 0]"
  let ?eA = "\<lparr>adapter = ARBITRUM, status = \<lparr>chainType = ARBITRUM, isHealthy = True,
         lastHealthCheck = 0, failureCount = 0, lastError = None\<rparr>\<rparr>"
  let ?eB = "\<lparr>adapter = BNB, status = \<lparr>chainType = BNB, isHealthy = True,
         lastHealthCheck = 0, failureCount = 0, lastError = None\<rparr>\<rparr>"
  have r: "?r = \<lparr>chains = [(ARBITRUM, ?eA), (BNB, ?eB)], config = default_config\<rparr>"
    by (simp add: registry_defs)
  have run: "registry_run ?r [CheckChainHealth ARBITRUM (Resolves False) 60,
        CheckChainHealth ARBITRUM (Resolves False) 120,
        CheckChainHealth ARBITRUM (Resolves False) 180] = failed_over_registry"
    by (simp add: failed_over_registry_def registry_run_def)
  have "let r3 = registry_run ?r [CheckChainHealth ARBITRUM (Resolves False) 60,
                   CheckChainHealth ARBITRUM (Resolves False) 120,
                   CheckChainHealth ARBITRUM (Resolves False) 180];
         r4 = registry_exec r3 (CheckChainHealth ARBITRUM (Resolves True) 240)
     in (\<exists>st. getChainStatus r3 ARBITRUM = Inr st \<and> \<not> isHealthy st \<and> failureCount st = 3) \<and>
        getHealthyAdapter r3 = Inr BNB \<and>
        (\<exists>st. getChainStatus r4 ARBITRUM = Inr st \<and> isHealthy st \<and> failureCount st = 0) \<and>
        getHealthyAdapter r4 = Inr (adapter ?eA)"
    by (rule failover_and_recovery[where b = BNB])
       (simp_all add: r default_config_def maxFailures_or_3_def probe_result_def)
  then show ?thesis
    unfolding run Let_def by simp
qed

text \<open>
  The claim as stated fails: one successful probe of the unhealthy primary chain sets
  its health flag to healthy in the same step that resets the failure count.
\<close>

theorem recovery_flag_counterexample:
  "getChainStatus failed_over_registry ARBITRUM =
     Inr \<lparr>chainType = ARBITRUM, isHealthy = False, lastHealthCheck = 180, failureCount = 3,
          lastError = None\<rparr> \<and>
   getChainStatus
     (registry_exec failed_over_registry (CheckChainHealth ARBITRUM (Resolves True) 240))
     ARBITRUM =
     Inr \<lparr>chainType = ARBITRUM, isHealthy = True, lastHealthCheck = 240, failureCount = 0,
          lastError = None\<rparr>"
  by (simp add: failed_over_registry_eq getChainStatus_def checkChainHealth_def
      probe_status_def probe_result_def default_config_def)

end
